theory Spec2Isabelle
  imports Complex_Main "HOL-Library.Multiset"
begin

section \<open>Data model\<close>

text \<open>
  A transaction record is a loosely typed dictionary (\<open>Dict[str, Any]\<close>) that comes from
  a JSON request body, so a field can hold any JSON value. Numbers are Python floats and
  ints; they are modelled as exact reals (finite values, no rounding). Text is modelled as
  \<open>string\<close>; the non-ASCII literals of the source are written as their UTF-8 bytes.
\<close>

datatype json =
    JNull
  | JBool bool
  | JNum real
  | JStr string
  | JArr "json list"
  | JObj "(string \<times> json) list"

type_synonym doc = "string \<rightharpoonup> json"

datatype error = ValueError | TypeError | AttributeError | IndexError | ZeroDivisionError
  | ValidationError | ExternalError

datatype query_mode = VECTOR_SEARCH | SMART_FULL | STATISTICAL

record statistics =
  count :: nat
  total :: real
  average :: real
  max_amount :: real
  min_amount :: real

section \<open>Query cache (app/utils/cache.py)\<close>

text \<open>
  \<open>datetime\<close> values carry microseconds; a point in time is the number of microseconds
  since the epoch and a \<open>timedelta\<close> a number of microseconds.
\<close>

type_synonym time = int

definition CACHE_TTL_MINUTES :: int where
  "CACHE_TTL_MINUTES = 30"

definition timedelta_minutes :: "int \<Rightarrow> int" where
  "timedelta_minutes m = m * 60 * 1000000"

record cache_data =
  answer :: string
  mode :: query_mode
  filtered_docs :: "doc list"
  filters_applied :: "string list option"
  statistics :: "statistics option"
  timestamp :: time

type_synonym query_cache = "string \<rightharpoonup> cache_data"

text \<open>
  \<open>cleanup_expired_cache\<close>: collects the keys whose entry is older than the TTL at the
  clock reading \<open>current_time\<close>, then deletes them.
\<close>

definition cleanup_expired_cache :: "time \<Rightarrow> query_cache \<Rightarrow> query_cache" where
  "cleanup_expired_cache current_time qc =
     (\<lambda>query_id. case qc query_id of
        None \<Rightarrow> None
      | Some cd \<Rightarrow>
          if current_time - timestamp cd > timedelta_minutes CACHE_TTL_MINUTES
          then None else Some cd)"

text \<open>
  \<open>get_cached_query\<close> reads the clock twice: once inside the sweep (\<open>t_sweep\<close>) and once
  when it checks the entry it found (\<open>t_check\<close>). It returns the entry or \<open>None\<close>,
  together with the store it leaves behind.
\<close>

definition get_cached_query ::
  "time \<Rightarrow> time \<Rightarrow> string \<Rightarrow> query_cache \<Rightarrow> cache_data option \<times> query_cache" where
  "get_cached_query t_sweep t_check query_id qc =
     (let qc1 = cleanup_expired_cache t_sweep qc in
      case qc1 query_id of
        Some cd \<Rightarrow>
          if t_check - timestamp cd \<le> timedelta_minutes CACHE_TTL_MINUTES
          then (Some cd, qc1)
          else (None, qc1(query_id := None))
      | None \<Rightarrow> (None, qc1))"

text \<open>\<open>cache_query_results\<close>: overwrites the entry of \<open>query_id\<close>, stamped with \<open>now\<close>.\<close>

definition cache_query_results ::
  "time \<Rightarrow> string \<Rightarrow> string \<Rightarrow> query_mode \<Rightarrow> doc list \<Rightarrow> string list option \<Rightarrow>
   statistics option \<Rightarrow> query_cache \<Rightarrow> query_cache" where
  "cache_query_results now query_id ans md fdocs fapplied stats qc =
     qc(query_id \<mapsto> \<lparr>answer = ans, mode = md, filtered_docs = fdocs,
                      filters_applied = fapplied, statistics = stats, timestamp = now\<rparr>)"

section \<open>Python library functions\<close>

text \<open>
  The character tables are those of ASCII text. A byte from \<open>0x80\<close> upwards belongs to
  the UTF-8 encoding of a non-ASCII letter: it has no case and counts as a word
  character.
\<close>

definition ascii_uppercase :: string where
  "ascii_uppercase = ''ABCDEFGHIJKLMNOPQRSTUVWXYZ''"

definition ascii_lowercase :: string where
  "ascii_lowercase = ''abcdefghijklmnopqrstuvwxyz''"

definition ascii_digits :: string where
  "ascii_digits = ''0123456789''"

definition is_upper :: "char \<Rightarrow> bool" where
  "is_upper c = (c \<in> set ascii_uppercase)"

definition is_lower :: "char \<Rightarrow> bool" where
  "is_lower c = (c \<in> set ascii_lowercase)"

definition is_digit :: "char \<Rightarrow> bool" where
  "is_digit c = (c \<in> set ascii_digits)"

text \<open>\<open>str.isspace\<close> and the class \<open>\s\<close>: tab, LF, VT, FF, CR, FS, GS, RS, US, space.\<close>

definition is_space :: "char \<Rightarrow> bool" where
  "is_space c = (c \<in> set [CHR 0x09, CHR 0x0A, CHR 0x0B, CHR 0x0C, CHR 0x0D,
                           CHR 0x1C, CHR 0x1D, CHR 0x1E, CHR 0x1F, CHR 0x20])"

text \<open>The class \<open>\w\<close>: letters, digits and the underscore.\<close>

definition is_word :: "char \<Rightarrow> bool" where
  "is_word c = (is_upper c \<or> is_lower c \<or> is_digit c \<or> c = CHR ''_'' \<or> 128 \<le> (of_char c :: nat))"

definition lower_char :: "char \<Rightarrow> char" where
  "lower_char c = (case map_of (zip ascii_uppercase ascii_lowercase) c of Some l \<Rightarrow> l | None \<Rightarrow> c)"

definition upper_char :: "char \<Rightarrow> char" where
  "upper_char c = (case map_of (zip ascii_lowercase ascii_uppercase) c of Some u \<Rightarrow> u | None \<Rightarrow> c)"

definition py_lower :: "string \<Rightarrow> string" where
  "py_lower s = map lower_char s"

definition py_upper :: "string \<Rightarrow> string" where
  "py_upper s = map upper_char s"

text \<open>\<open>sub in s\<close> for two strings.\<close>

definition starts_with :: "string \<Rightarrow> string \<Rightarrow> bool" where
  "starts_with s sub = (take (length sub) s = sub)"

fun contains :: "string \<Rightarrow> string \<Rightarrow> bool" where
  "contains [] sub = (sub = [])"
| "contains (c # cs) sub = (starts_with (c # cs) sub \<or> contains cs sub)"

text \<open>\<open>s.split()\<close>: the maximal runs of non-whitespace characters.\<close>

fun split_ws :: "string \<Rightarrow> string \<Rightarrow> string list" where
  "split_ws cur [] = (if cur = [] then [] else [cur])"
| "split_ws cur (c # cs) =
     (if is_space c then (if cur = [] then split_ws [] cs else cur # split_ws [] cs)
      else split_ws (cur @ [c]) cs)"

definition py_split :: "string \<Rightarrow> string list" where
  "py_split s = split_ws [] s"

text \<open>\<open>str(n)\<close> for an int.\<close>

function str_nat :: "nat \<Rightarrow> string" where
  "str_nat n = (if n < 10 then [ascii_digits ! n] else str_nat (n div 10) @ [ascii_digits ! (n mod 10)])"
  by pat_completeness auto
termination
  by (relation "measure id") auto

definition str_int :: "int \<Rightarrow> string" where
  "str_int i = (if i < 0 then CHR ''-'' # str_nat (nat (- i)) else str_nat (nat i))"

text \<open>\<open>xs[i]\<close> for a list: a negative index counts from the end.\<close>

definition py_index :: "'a list \<Rightarrow> int \<Rightarrow> error + 'a" where
  "py_index xs i =
     (if 0 \<le> i \<and> i < int (length xs) then Inr (xs ! nat i)
      else if i < 0 \<and> - int (length xs) \<le> i then Inr (xs ! nat (int (length xs) + i))
      else Inl IndexError)"

text \<open>\<open>xs[start:end]\<close>: both bounds are clipped to the list.\<close>

definition slice_index :: "nat \<Rightarrow> int \<Rightarrow> nat" where
  "slice_index n i = (if i < 0 then nat (max 0 (int n + i)) else min (nat i) n)"

definition py_slice :: "'a list \<Rightarrow> int \<Rightarrow> int \<Rightarrow> 'a list" where
  "py_slice xs start end =
     (let a = slice_index (length xs) start; b = slice_index (length xs) end
      in take (b - a) (drop a xs))"

text \<open>
  Library functions whose tables and grammars are not part of the repository are
  parameters of the model: \<open>float(s)\<close> for a string (\<open>None\<close> when it raises
  \<open>ValueError\<close>), \<open>datetime.strptime(s, '%Y-%m-%d')\<close> (year, month, day; \<open>None\<close> when it
  raises), the format \<open>{x:,.2f}\<close>, and the validation done by the constructor of the
  pydantic model \<open>TransactionInfo\<close>.
\<close>

record txn_info =
  transaction_id :: json
  account_number :: json
  date :: json
  amount :: real
  txn_type :: string
  txn_mode :: json
  balance_after :: real
  narration :: json
  reference :: json

record pylib =
  float_of_str :: "string \<Rightarrow> real option"
  strptime_ymd :: "string \<Rightarrow> (int \<times> int \<times> int) option"
  format_money :: "real \<Rightarrow> string"
  TransactionInfo :: "txn_info \<Rightarrow> error + txn_info"

text \<open>Sequencing of computations that may raise.\<close>

definition bind_err :: "error + 'a \<Rightarrow> ('a \<Rightarrow> error + 'b) \<Rightarrow> error + 'b" where
  "bind_err m f = (case m of Inl e \<Rightarrow> Inl e | Inr x \<Rightarrow> f x)"

text \<open>A list comprehension with a condition that may raise: the first error ends it.\<close>

fun filter_err :: "('a \<Rightarrow> error + bool) \<Rightarrow> 'a list \<Rightarrow> error + 'a list" where
  "filter_err p [] = Inr []"
| "filter_err p (x # xs) =
     (case p x of
        Inl e \<Rightarrow> Inl e
      | Inr b \<Rightarrow> (case filter_err p xs of
                    Inl e \<Rightarrow> Inl e
                  | Inr ys \<Rightarrow> Inr (if b then x # ys else ys)))"

fun map_err :: "('a \<Rightarrow> error + 'b) \<Rightarrow> 'a list \<Rightarrow> error + 'b list" where
  "map_err f [] = Inr []"
| "map_err f (x # xs) =
     (case f x of
        Inl e \<Rightarrow> Inl e
      | Inr y \<Rightarrow> (case map_err f xs of Inl e \<Rightarrow> Inl e | Inr ys \<Rightarrow> Inr (y # ys)))"

text \<open>\<open>d.get(key, default)\<close>, truthiness, and \<open>float(v)\<close> of a JSON value.\<close>

definition dget :: "doc \<Rightarrow> string \<Rightarrow> json \<Rightarrow> json" where
  "dget d key dflt = (case d key of Some v \<Rightarrow> v | None \<Rightarrow> dflt)"

fun truthy :: "json \<Rightarrow> bool" where
  "truthy JNull = False"
| "truthy (JBool b) = b"
| "truthy (JNum r) = (r \<noteq> 0)"
| "truthy (JStr s) = (s \<noteq> [])"
| "truthy (JArr xs) = (xs \<noteq> [])"
| "truthy (JObj kvs) = (kvs \<noteq> [])"

fun py_float :: "pylib \<Rightarrow> json \<Rightarrow> error + real" where
  "py_float L JNull = Inl TypeError"
| "py_float L (JBool b) = Inr (if b then 1 else 0)"
| "py_float L (JNum r) = Inr r"
| "py_float L (JStr s) = (case float_of_str L s of Some r \<Rightarrow> Inr r | None \<Rightarrow> Inl ValueError)"
| "py_float L (JArr xs) = Inl TypeError"
| "py_float L (JObj kvs) = Inl TypeError"

text \<open>\<open>float(d.get('amount', 0))\<close>\<close>

definition amount_of :: "pylib \<Rightarrow> doc \<Rightarrow> error + real" where
  "amount_of L d = py_float L (dget d ''amount'' (JNum 0))"

section \<open>Regular expressions (the fragment of \<open>re\<close> the code uses)\<close>

datatype rx =
    Lit string
  | Cls "char \<Rightarrow> bool"
  | Seq rx rx
  | Alt rx rx
  | Opt rx
  | Star rx
  | StarLazy rx
  | WordB

text \<open>\<open>\b\<close>: exactly one of the characters before and after the position is a word character.\<close>

definition word_at :: "string \<Rightarrow> nat \<Rightarrow> bool" where
  "word_at s i = (i < length s \<and> is_word (s ! i))"

definition word_boundary :: "string \<Rightarrow> nat \<Rightarrow> bool" where
  "word_boundary s i = ((i > 0 \<and> word_at s (i - 1)) \<noteq> word_at s i)"

definition lit_at :: "bool \<Rightarrow> string \<Rightarrow> string \<Rightarrow> nat \<Rightarrow> bool" where
  "lit_at ic w s i =
     (if ic then py_lower (take (length w) (drop i s)) = py_lower w
      else take (length w) (drop i s) = w)"

text \<open>
  Repetition: \<open>step\<close> gives the end positions of one more iteration; an iteration that
  consumes nothing is not repeated. The positions are listed in the order in which the
  backtracking matcher tries them (longest first when greedy, shortest first when lazy).
\<close>

fun star_steps :: "(nat \<Rightarrow> nat list) \<Rightarrow> bool \<Rightarrow> nat \<Rightarrow> nat \<Rightarrow> nat list" where
  "star_steps step lazy 0 i = [i]"
| "star_steps step lazy (Suc fuel) i =
     (let more = concat (map (star_steps step lazy fuel) (filter (\<lambda>j. i < j) (step i)))
      in if lazy then i # more else more @ [i])"

text \<open>
  \<open>rmatch r ic s i\<close>: the positions at which a match of \<open>r\<close> that starts at position
  \<open>i\<close> of \<open>s\<close> can end; \<open>ic\<close> is the flag \<open>re.IGNORECASE\<close>.
\<close>

primrec rmatch :: "rx \<Rightarrow> bool \<Rightarrow> string \<Rightarrow> nat \<Rightarrow> nat list" where
  "rmatch (Lit w) ic s i = (if lit_at ic w s i then [i + length w] else [])"
| "rmatch (Cls p) ic s i = (if i < length s \<and> p (s ! i) then [Suc i] else [])"
| "rmatch (Seq a b) ic s i = concat (map (rmatch b ic s) (rmatch a ic s i))"
| "rmatch (Alt a b) ic s i = rmatch a ic s i @ rmatch b ic s i"
| "rmatch (Opt a) ic s i = rmatch a ic s i @ [i]"
| "rmatch (Star a) ic s i = star_steps (rmatch a ic s) False (length s - i) i"
| "rmatch (StarLazy a) ic s i = star_steps (rmatch a ic s) True (length s - i) i"
| "rmatch WordB ic s i = (if word_boundary s i then [i] else [])"

definition Plus :: "rx \<Rightarrow> rx" where
  "Plus a = Seq a (Star a)"

fun Seqs :: "rx list \<Rightarrow> rx" where
  "Seqs [] = Lit []"
| "Seqs [a] = a"
| "Seqs (a # as) = Seq a (Seqs as)"

fun Alts :: "rx list \<Rightarrow> rx" where
  "Alts [] = Cls (\<lambda>c. False)"
| "Alts [a] = a"
| "Alts (a # as) = Alt a (Alts as)"

text \<open>\<open>re.search(r, s)\<close> as a truth value: some position starts a match.\<close>

definition re_search :: "rx \<Rightarrow> bool \<Rightarrow> string \<Rightarrow> bool" where
  "re_search r ic s = list_ex (\<lambda>i. rmatch r ic s i \<noteq> []) [0..<Suc (length s)]"

text \<open>The classes \<open>.\<close> (anything but a newline), \<open>\s\<close> and \<open>\d\<close>.\<close>

definition dot :: rx where
  "dot = Cls (\<lambda>c. c \<noteq> CHR 0x0A)"

definition ws :: rx where
  "ws = Cls is_space"

definition digit :: rx where
  "digit = Cls is_digit"

section \<open>Filter application (app/utils/filters.py)\<close>

text \<open>
  The Filter Set is the dictionary built by \<open>extract_filters_from_query\<close>; the keys
  \<open>mode\<close> and \<open>type\<close> are the fields \<open>mode_filter\<close> and \<open>type_filter\<close>. The date filter is
  a dictionary with the optional keys \<open>year\<close> and \<open>month\<close>.
\<close>

record date_f =
  year :: "int option"
  month :: "int option"

record filters =
  amount_above :: "real option"
  amount_below :: "real option"
  amount_range :: "(real \<times> real) option"
  date_filter :: "date_f option"
  mode_filter :: "string option"
  type_filter :: "string option"
  account_id :: "string option"
  person_name :: "string option"
  strict_name_match :: bool

text \<open>
  \<open>filters.get(key)\<close> used as a condition: \<open>None\<close>, the number zero, the empty string
  and the empty dictionary are false; a tuple of two numbers is true.
\<close>

definition truthy_date :: "date_f option \<Rightarrow> bool" where
  "truthy_date df = (case df of None \<Rightarrow> False | Some f \<Rightarrow> year f \<noteq> None \<or> month f \<noteq> None)"

definition truthy_str :: "string option \<Rightarrow> bool" where
  "truthy_str so = (case so of None \<Rightarrow> False | Some s \<Rightarrow> s \<noteq> [])"

definition truthy_num :: "real option \<Rightarrow> bool" where
  "truthy_num ro = (case ro of None \<Rightarrow> False | Some r \<Rightarrow> r \<noteq> 0)"

text \<open>The dictionary with which \<open>extract_filters_from_query\<close> starts: no filter is set.\<close>

definition no_filters :: filters where
  "no_filters = \<lparr>amount_above = None, amount_below = None, amount_range = None,
                 date_filter = None, mode_filter = None, type_filter = None,
                 account_id = None, person_name = None, strict_name_match = False\<rparr>"

definition month_names :: "string list" where
  "month_names = [''Jan'', ''Feb'', ''Mar'', ''Apr'', ''May'', ''Jun'',
                  ''Jul'', ''Aug'', ''Sep'', ''Oct'', ''Nov'', ''Dec'']"

text \<open>The rupee sign, U+20B9, in UTF-8.\<close>

definition rupee :: string where
  "rupee = [CHR 0xE2, CHR 0x82, CHR 0xB9]"

text \<open>
  The body of the date loop for one record: the \<open>try\<close> block with its bare \<open>except\<close>,
  so a value that is not a string or does not parse is no match.
\<close>

definition date_match :: "pylib \<Rightarrow> date_f \<Rightarrow> doc \<Rightarrow> bool" where
  "date_match L df d =
     (let date_str = dget d ''createdAt'' (JStr []) in
      if truthy date_str then
        (case date_str of
           JStr s \<Rightarrow>
             (case strptime_ymd L (take 10 s) of
                None \<Rightarrow> False
              | Some (y, m, dd) \<Rightarrow>
                  \<not> (case year df of Some fy \<Rightarrow> y \<noteq> fy | None \<Rightarrow> False)
                  \<and> \<not> (case month df of Some fm \<Rightarrow> m \<noteq> fm | None \<Rightarrow> False))
         | _ \<Rightarrow> False)
      else False)"

definition date_stage ::
  "pylib \<Rightarrow> filters \<Rightarrow> doc list \<times> string list \<Rightarrow> error + doc list \<times> string list" where
  "date_stage L F st =
     (case st of (filtered, descriptions) \<Rightarrow>
        if truthy_date (date_filter F) then
          (let df = the (date_filter F);
               new_filtered = filter (date_match L df) filtered
           in case (month df, year df) of
                (Some m, Some y) \<Rightarrow>
                  bind_err (py_index month_names (m - 1))
                    (\<lambda>mn. Inr (new_filtered, descriptions @ [''Date: '' @ mn @ '' '' @ str_int y]))
              | (None, Some y) \<Rightarrow> Inr (new_filtered, descriptions @ [''Year: '' @ str_int y])
              | _ \<Rightarrow> Inr (new_filtered, descriptions))
        else Inr st)"

text \<open>\<open>d.get('mode', d.get('txnMode', '')).upper() == mode.upper()\<close>\<close>

definition mode_match :: "string \<Rightarrow> doc \<Rightarrow> error + bool" where
  "mode_match md d =
     (case dget d ''mode'' (dget d ''txnMode'' (JStr [])) of
        JStr s \<Rightarrow> Inr (py_upper s = py_upper md)
      | _ \<Rightarrow> Inl AttributeError)"

definition mode_stage ::
  "pylib \<Rightarrow> filters \<Rightarrow> doc list \<times> string list \<Rightarrow> error + doc list \<times> string list" where
  "mode_stage L F st =
     (case st of (filtered, descriptions) \<Rightarrow>
        if truthy_str (mode_filter F) then
          (let md = the (mode_filter F) in
           bind_err (filter_err (mode_match md) filtered)
             (\<lambda>new_filtered. Inr (new_filtered, descriptions @ [''Mode: '' @ md])))
        else Inr st)"

text \<open>
  \<open>txn_type in d.get('pk_GSI_1', '')\<close>: a substring test on a string, membership in a
  list, a key test on a dictionary, \<open>TypeError\<close> on anything else.
\<close>

definition type_match :: "string \<Rightarrow> doc \<Rightarrow> error + bool" where
  "type_match ty d =
     (case dget d ''pk_GSI_1'' (JStr []) of
        JStr s \<Rightarrow> Inr (contains s ty)
      | JArr xs \<Rightarrow> Inr (JStr ty \<in> set xs)
      | JObj kvs \<Rightarrow> Inr (ty \<in> set (map fst kvs))
      | _ \<Rightarrow> Inl TypeError)"

definition type_stage ::
  "pylib \<Rightarrow> filters \<Rightarrow> doc list \<times> string list \<Rightarrow> error + doc list \<times> string list" where
  "type_stage L F st =
     (case st of (filtered, descriptions) \<Rightarrow>
        if truthy_str (type_filter F) then
          (let ty = the (type_filter F) in
           bind_err (filter_err (type_match ty) filtered)
             (\<lambda>new_filtered. Inr (new_filtered, descriptions @ [''Type: '' @ ty])))
        else Inr st)"

text \<open>The three conditions on \<open>float(d.get('amount', 0))\<close>.\<close>

definition range_match :: "pylib \<Rightarrow> real \<Rightarrow> real \<Rightarrow> doc \<Rightarrow> error + bool" where
  "range_match L min_amt max_amt d =
     bind_err (amount_of L d) (\<lambda>a. Inr (min_amt \<le> a \<and> a \<le> max_amt))"

definition above_match :: "pylib \<Rightarrow> real \<Rightarrow> doc \<Rightarrow> error + bool" where
  "above_match L threshold d = bind_err (amount_of L d) (\<lambda>a. Inr (a > threshold))"

definition below_match :: "pylib \<Rightarrow> real \<Rightarrow> doc \<Rightarrow> error + bool" where
  "below_match L threshold d = bind_err (amount_of L d) (\<lambda>a. Inr (a < threshold))"

definition amount_stage ::
  "pylib \<Rightarrow> filters \<Rightarrow> doc list \<times> string list \<Rightarrow> error + doc list \<times> string list" where
  "amount_stage L F st =
     (case st of (filtered, descriptions) \<Rightarrow>
        if amount_range F \<noteq> None then
          (case the (amount_range F) of (min_amt, max_amt) \<Rightarrow>
             bind_err (filter_err (range_match L min_amt max_amt) filtered)
               (\<lambda>new_filtered. Inr (new_filtered,
                  descriptions @ [''Amount: '' @ rupee @ format_money L min_amt @ '' - ''
                                   @ rupee @ format_money L max_amt])))
        else if truthy_num (amount_above F) then
          (let threshold = the (amount_above F) in
           bind_err (filter_err (above_match L threshold) filtered)
             (\<lambda>new_filtered. Inr (new_filtered,
                descriptions @ [''Amount above: '' @ rupee @ format_money L threshold])))
        else if truthy_num (amount_below F) then
          (let threshold = the (amount_below F) in
           bind_err (filter_err (below_match L threshold) filtered)
             (\<lambda>new_filtered. Inr (new_filtered,
                descriptions @ [''Amount below: '' @ rupee @ format_money L threshold])))
        else Inr st)"

text \<open>\<open>d.get('accountId', d.get('accountNumber', '')).lower() == acc_id.lower()\<close>\<close>

definition account_match :: "string \<Rightarrow> doc \<Rightarrow> error + bool" where
  "account_match acc_id d =
     (case dget d ''accountId'' (dget d ''accountNumber'' (JStr [])) of
        JStr s \<Rightarrow> Inr (py_lower s = py_lower acc_id)
      | _ \<Rightarrow> Inl AttributeError)"

definition account_stage ::
  "pylib \<Rightarrow> filters \<Rightarrow> doc list \<times> string list \<Rightarrow> error + doc list \<times> string list" where
  "account_stage L F st =
     (case st of (filtered, descriptions) \<Rightarrow>
        if truthy_str (account_id F) then
          (let acc_id = the (account_id F) in
           bind_err (filter_err (account_match acc_id) filtered)
             (\<lambda>new_filtered. Inr (new_filtered, descriptions @ [''Account: '' @ acc_id])))
        else Inr st)"

text \<open>
  The strict name pattern: \<open>\b\<close>, the escaped words of the name joined by \<open>\s+\<close>, \<open>\b\<close>.
\<close>

fun join_rx :: "rx \<Rightarrow> rx list \<Rightarrow> rx list" where
  "join_rx sep [] = []"
| "join_rx sep [a] = [a]"
| "join_rx sep (a # as) = a # sep # join_rx sep as"

definition name_pattern :: "string list \<Rightarrow> rx" where
  "name_pattern name_words = Seqs ([WordB] @ join_rx (Plus ws) (map Lit name_words) @ [WordB])"

definition strict_name_matches :: "string \<Rightarrow> doc \<Rightarrow> error + bool" where
  "strict_name_matches name d =
     (let narr = dget d ''narration'' (JStr []); name_words = py_split name in
      if length name_words \<ge> 2 then
        (case narr of
           JStr s \<Rightarrow> Inr (re_search (name_pattern name_words) True s)
         | _ \<Rightarrow> Inl TypeError)
      else
        (case narr of
           JStr s \<Rightarrow> Inr (contains (py_lower s) (py_lower name))
         | _ \<Rightarrow> Inl AttributeError))"

definition loose_name_matches :: "string \<Rightarrow> doc \<Rightarrow> error + bool" where
  "loose_name_matches name d =
     (case dget d ''narration'' (JStr []) of
        JStr s \<Rightarrow> Inr (contains (py_lower s) (py_lower name))
      | _ \<Rightarrow> Inl AttributeError)"

definition quote :: string where
  "quote = [CHR 0x27]"

definition person_stage ::
  "pylib \<Rightarrow> filters \<Rightarrow> doc list \<times> string list \<Rightarrow> error + doc list \<times> string list" where
  "person_stage L F st =
     (case st of (filtered, descriptions) \<Rightarrow>
        if truthy_str (person_name F) then
          (let name = the (person_name F) in
           if strict_name_match F then
             bind_err (filter_err (strict_name_matches name) filtered)
               (\<lambda>new_filtered. Inr (new_filtered,
                  descriptions @ [''EXACT name: '' @ quote @ name @ quote]))
           else
             bind_err (filter_err (loose_name_matches name) filtered)
               (\<lambda>new_filtered. Inr (new_filtered,
                  descriptions @ [''Person: '' @ quote @ name @ quote])))
        else Inr st)"

text \<open>
  \<open>apply_filters(documents, filters, question)\<close>: the six blocks of the function run in
  the order of the source; \<open>question\<close> is not used by the function. The result is the
  pair \<open>(filtered, descriptions)\<close>, or the exception that leaves the function.
\<close>

definition apply_filters :: "pylib \<Rightarrow> doc list \<Rightarrow> filters \<Rightarrow> error + doc list \<times> string list" where
  "apply_filters L documents F =
     bind_err (date_stage L F (documents, []))
       (\<lambda>st. bind_err (mode_stage L F st)
         (\<lambda>st. bind_err (type_stage L F st)
           (\<lambda>st. bind_err (amount_stage L F st)
             (\<lambda>st. bind_err (account_stage L F st)
               (\<lambda>st. person_stage L F st)))))"

section \<open>Statistics (app/utils/query_mode.py)\<close>

definition zero_statistics :: statistics where
  "zero_statistics = \<lparr>count = 0, total = 0, average = 0, max_amount = 0, min_amount = 0\<rparr>"

definition calculate_statistics :: "pylib \<Rightarrow> doc list \<Rightarrow> filters \<Rightarrow> error + statistics" where
  "calculate_statistics L documents F =
     bind_err (apply_filters L documents F)
       (\<lambda>(fdocs, _).
          if fdocs = [] then Inr zero_statistics
          else bind_err (map_err (amount_of L) fdocs)
            (\<lambda>amounts. Inr \<lparr>count = length fdocs,
                             total = sum_list amounts,
                             average = (if amounts \<noteq> [] then sum_list amounts / real (length amounts) else 0),
                             max_amount = (if amounts \<noteq> [] then Max (set amounts) else 0),
                             min_amount = (if amounts \<noteq> [] then Min (set amounts) else 0)\<rparr>))"

section \<open>Pagination (app/api/transactions.py)\<close>

text \<open>
  \<open>sorted(filtered_docs, key=lambda x: float(x.get('amount', 0)), reverse=True)\<close>: the
  keys are computed first, in list order; the sort is stable and \<open>reverse=True\<close> keeps
  records with equal keys in their original order.
\<close>

definition sorted_by_amount_desc :: "pylib \<Rightarrow> doc list \<Rightarrow> error + doc list" where
  "sorted_by_amount_desc L docs =
     bind_err (map_err (amount_of L) docs)
       (\<lambda>keys. Inr (map snd (sort_key (\<lambda>p. - fst p) (zip keys docs))))"

text \<open>\<open>s.replace("TYPE#", "")\<close>\<close>

fun remove_type_tag :: "string \<Rightarrow> string" where
  "remove_type_tag [] = []"
| "remove_type_tag (c # cs) =
     (if starts_with (c # cs) ''TYPE#'' then remove_type_tag (drop 4 cs)
      else c # remove_type_tag cs)"

text \<open>
  \<open>format_transaction_for_api\<close> (app/utils/formatters.py): the keyword arguments are
  evaluated in the order of the source, then the constructor validates them.
\<close>

definition format_transaction_for_api :: "pylib \<Rightarrow> doc \<Rightarrow> error + txn_info" where
  "format_transaction_for_api L d =
     bind_err (py_float L (dget d ''amount'' (JNum 0)))
       (\<lambda>amt. bind_err (case dget d ''pk_GSI_1'' (JStr ''N/A'') of
                           JStr s \<Rightarrow> Inr (remove_type_tag s)
                         | _ \<Rightarrow> Inl AttributeError)
         (\<lambda>ty. bind_err (py_float L (dget d ''currentBalance'' (dget d ''balance'' (JNum 0))))
           (\<lambda>bal. TransactionInfo L
              \<lparr>transaction_id = dget d ''txnId'' (JStr ''N/A''),
               account_number = dget d ''accountId'' (dget d ''accountNumber'' (JStr ''N/A'')),
               date = dget d ''createdAt'' (JStr ''N/A''),
               amount = amt,
               txn_type = ty,
               txn_mode = dget d ''mode'' (dget d ''txnMode'' (JStr ''N/A'')),
               balance_after = bal,
               narration = dget d ''narration'' (JStr ''N/A''),
               reference = dget d ''reference'' (dget d ''txnRef'' (JStr ''N/A''))\<rparr>)))"

record pagination =
  pg_page :: int
  pg_page_size :: int
  total_items :: int
  total_pages :: int
  has_next :: bool
  has_prev :: bool

text \<open>
  The block \<open># Paginate results\<close>, which the endpoints run when \<open>show_all\<close> is set and the
  filtered list is not empty: sort, slice, format the page, build the metadata.
\<close>

definition paginate ::
  "pylib \<Rightarrow> int \<Rightarrow> int \<Rightarrow> doc list \<Rightarrow> error + txn_info list \<times> pagination" where
  "paginate L pg ps fdocs =
     bind_err (sorted_by_amount_desc L fdocs)
       (\<lambda>sorted_docs.
          let start_idx = (pg - 1) * ps;
              end_idx = start_idx + ps;
              paginated_docs = py_slice sorted_docs start_idx end_idx
          in bind_err (map_err (format_transaction_for_api L) paginated_docs)
               (\<lambda>txns.
                  if ps = 0 then Inl ZeroDivisionError
                  else Inr (txns,
                    \<lparr>pg_page = pg, pg_page_size = ps,
                     total_items = int (length fdocs),
                     total_pages = (int (length fdocs) + ps - 1) div ps,
                     has_next = (end_idx < int (length fdocs)),
                     has_prev = (pg > 1)\<rparr>)))"

section \<open>Mode classification (app/utils/query_mode.py)\<close>

text \<open>The Devanagari words of the patterns, in UTF-8.\<close>

definition kitne_hi :: string where
  "kitne_hi = [CHR 0xE0, CHR 0xA4, CHR 0x95, CHR 0xE0, CHR 0xA4, CHR 0xBF, CHR 0xE0, CHR 0xA4, CHR 0xA4, CHR 0xE0, CHR 0xA4, CHR 0xA8, CHR 0xE0, CHR 0xA5, CHR 0x87]"

definition kitni_hi :: string where
  "kitni_hi = [CHR 0xE0, CHR 0xA4, CHR 0x95, CHR 0xE0, CHR 0xA4, CHR 0xBF, CHR 0xE0, CHR 0xA4, CHR 0xA4, CHR 0xE0, CHR 0xA4, CHR 0xA8, CHR 0xE0, CHR 0xA5, CHR 0x80]"

definition tranj_hi :: string where
  "tranj_hi = [CHR 0xE0, CHR 0xA4, CHR 0x9F, CHR 0xE0, CHR 0xA5, CHR 0x8D, CHR 0xE0, CHR 0xA4, CHR 0xB0, CHR 0xE0, CHR 0xA4, CHR 0xBE, CHR 0xE0, CHR 0xA4, CHR 0x82, CHR 0xE0, CHR 0xA4, CHR 0x9C]"

definition khata_hi :: string where
  "khata_hi = [CHR 0xE0, CHR 0xA4, CHR 0x96, CHR 0xE0, CHR 0xA4, CHR 0xBE, CHR 0xE0, CHR 0xA4, CHR 0xA4, CHR 0xE0, CHR 0xA4, CHR 0xBE]"

text \<open>The group \<open>(how many|kitne|count|total)\<close>.\<close>

definition counting_words :: rx where
  "counting_words = Alts [Lit ''how many'', Lit ''kitne'', Lit ''count'', Lit ''total'']"

definition counting_patterns :: "rx list" where
  "counting_patterns =
     [Seqs [WordB, counting_words, Plus ws, StarLazy dot, Lit ''transaction''],
      Seqs [Lit ''transaction'', StarLazy dot, WordB, counting_words],
      Seqs [WordB, Alts [Lit kitne_hi, Lit kitni_hi], Plus ws, StarLazy dot,
            Alts [Lit ''transaction'', Lit tranj_hi]],
      Seqs [Alts [Lit ''transaction'', Lit tranj_hi], StarLazy dot, WordB,
            Alts [Lit kitne_hi, Lit kitni_hi]],
      Seqs [WordB, Alts [Lit ''how'', Lit ''kitne''], Plus ws, Lit ''many'', WordB],
      Seqs [WordB, Lit ''number of'', Plus ws, Lit ''transaction'']]"

text \<open>\<open>[0-9a-f]{8}-[0-9a-f]{4}-[0-9a-f]{4}-[0-9a-f]{4}-[0-9a-f]{12}\<close>\<close>

definition hex :: rx where
  "hex = Cls (\<lambda>c. c \<in> set ''0123456789abcdef'')"

definition account_pattern :: rx where
  "account_pattern =
     Seqs [Seqs (replicate 8 hex), Lit ''-'', Seqs (replicate 4 hex), Lit ''-'',
           Seqs (replicate 4 hex), Lit ''-'', Seqs (replicate 4 hex), Lit ''-'',
           Seqs (replicate 12 hex)]"

text \<open>\<open>\b(account|acc|...)\s*(?:number|no|#)?\b\<close>\<close>

definition account_keyword_pattern :: rx where
  "account_keyword_pattern =
     Seqs [WordB, Alts [Lit ''account'', Lit ''acc'', Lit khata_hi], Star ws,
           Opt (Alts [Lit ''number'', Lit ''no'', Lit ''#'']), WordB]"

definition exclude_patterns :: "rx list" where
  "exclude_patterns =
     [Seqs [Lit ''account'', Star ws, Lit ''number''],
      Seqs [Lit ''transaction'', Star ws, Lit ''number''],
      Seqs [Lit ''reference'', Star ws, Lit ''number'']]"

definition stats_keywords :: "string list" where
  "stats_keywords = [''total amount'', ''sum of'', ''average amount'', ''count of'',
                     ''how many transactions'', ''kitne transactions'']"

definition full_scan_keywords :: "string list" where
  "full_scan_keywords = [''all'', ''saari'', ''sabhi'', ''sab'', ''every'', ''show me'', ''dikhao'',
                         ''list'', ''display'', ''between'', ''above'', ''below'', ''largest'', ''smallest'']"

definition year_pattern :: rx where
  "year_pattern = Seqs [WordB, Lit ''20'', digit, digit, WordB]"

definition month_pattern :: rx where
  "month_pattern =
     Seqs [WordB,
           Alts (map Lit [''january'', ''february'', ''march'', ''april'', ''may'', ''june'', ''july'',
                          ''august'', ''september'', ''october'', ''november'', ''december'']),
           WordB]"

definition analytical_keywords :: "string list" where
  "analytical_keywords =
     [''summarize'', ''summarise'', ''summary'', ''analyze'', ''analyse'', ''analysis'',
      ''insights'', ''patterns'', ''trends'', ''overview'', ''explain'', ''tell me about'',
      ''what happened'', ''describe'', ''understand'', ''help me'', ''guide'', ''advice'',
      ''recommend'', ''suggest'', ''why'', ''how'', ''when'', ''where'', ''what'',
      ''batao'', ''samjhao'', ''bataiye'', ''explain karo'', ''kya hua'']"

text \<open>The conditions of the cascade on the lower-cased question.\<close>

definition is_counting :: "string \<Rightarrow> bool" where
  "is_counting question_lower = list_ex (\<lambda>pattern. re_search pattern False question_lower) counting_patterns"

definition is_account_listing :: "string \<Rightarrow> bool" where
  "is_account_listing question_lower =
     (let has_account = re_search account_pattern False question_lower;
          has_account_keyword = re_search account_keyword_pattern False question_lower
      in (has_account \<or> has_account_keyword)
         \<and> list_ex (contains question_lower) [''transaction'', ''saari'', ''all'', ''list'', ''dikhao''])"

definition is_statistical :: "string \<Rightarrow> bool" where
  "is_statistical question_lower =
     (let is_excluded = list_ex (\<lambda>pattern. re_search pattern False question_lower) exclude_patterns
      in \<not> is_excluded \<and> list_ex (contains question_lower) stats_keywords)"

definition is_full_scan :: "string \<Rightarrow> bool" where
  "is_full_scan question_lower = list_ex (contains question_lower) full_scan_keywords"

definition is_period :: "string \<Rightarrow> bool" where
  "is_period question_lower =
     (let has_year = re_search year_pattern False question_lower;
          has_month = re_search month_pattern False question_lower
      in (has_year \<or> has_month) \<and> contains question_lower ''transaction'')"

definition is_analytical_question :: "string \<Rightarrow> bool" where
  "is_analytical_question question_lower = list_ex (contains question_lower) analytical_keywords"

text \<open>
  \<open>detect_query_mode(question, documents)\<close>: the cascade of \<open>if ...: return\<close> statements in
  the order of the source; \<open>documents\<close> is not used by the function.
\<close>

definition detect_query_mode :: "string \<Rightarrow> doc list \<Rightarrow> query_mode" where
  "detect_query_mode question documents =
     (let question_lower = py_lower question in
      if is_counting question_lower then VECTOR_SEARCH
      else if is_account_listing question_lower then SMART_FULL
      else if is_statistical question_lower then STATISTICAL
      else if is_full_scan question_lower then SMART_FULL
      else if is_period question_lower then SMART_FULL
      else if is_analytical_question question_lower then VECTOR_SEARCH
      else VECTOR_SEARCH)"

text \<open>
  The same cascade, returning the number of the \<open>return\<close> statement that ends the
  function (the priorities 1 to 6 of the source's comments, 7 for the default).
\<close>

definition detect_query_rule :: "string \<Rightarrow> nat" where
  "detect_query_rule question =
     (let question_lower = py_lower question in
      if is_counting question_lower then 1
      else if is_account_listing question_lower then 2
      else if is_statistical question_lower then 3
      else if is_full_scan question_lower then 4
      else if is_period question_lower then 5
      else if is_analytical_question question_lower then 6
      else 7)"

section \<open>Filter extraction (app/utils/filters.py)\<close>

text \<open>
  \<open>re.search(r, s)\<close> as a match object: the leftmost start position with a match and the
  end the backtracking matcher reaches first. \<open>s[i:e]\<close> is the matched text.
\<close>

definition re_find :: "rx \<Rightarrow> string \<Rightarrow> (nat \<times> nat) option" where
  "re_find r s =
     (case List.find (\<lambda>i. rmatch r False s i \<noteq> []) [0..<Suc (length s)] of
        None \<Rightarrow> None
      | Some i \<Rightarrow> Some (i, hd (rmatch r False s i)))"

definition substr :: "string \<Rightarrow> nat \<Rightarrow> nat \<Rightarrow> string" where
  "substr s i e = take (e - i) (drop i s)"

text \<open>
  A pattern that ends in its only group, \<open>pre(grp)\<close>: the start and end of the group in
  the first match, following the matcher's order of alternatives.
\<close>

definition re_find_group :: "rx \<Rightarrow> rx \<Rightarrow> string \<Rightarrow> (nat \<times> nat) option" where
  "re_find_group pre grp s =
     (case List.find (\<lambda>i. rmatch (Seq pre grp) False s i \<noteq> []) [0..<Suc (length s)] of
        None \<Rightarrow> None
      | Some i \<Rightarrow>
          Some (hd (concat (map (\<lambda>j. map (Pair j) (rmatch grp False s j)) (rmatch pre False s i)))))"

text \<open>
  \<open>re.findall(r, s)\<close> for a pattern without groups: the matches from left to right, each
  search resuming where the last match ended.
\<close>

function findall_from :: "rx \<Rightarrow> string \<Rightarrow> nat \<Rightarrow> (nat \<times> nat) list" where
  "findall_from r s i =
     (if length s < i then []
      else (case rmatch r False s i of
              [] \<Rightarrow> findall_from r s (Suc i)
            | e # _ \<Rightarrow> (i, e) # findall_from r s (if i < e then e else Suc i)))"
  by pat_completeness auto
termination
  by (relation "measure (\<lambda>(r, s, i). Suc (length s) - i)") auto

definition re_findall :: "rx \<Rightarrow> string \<Rightarrow> string list" where
  "re_findall r s = map (\<lambda>(i, e). substr s i e) (findall_from r s 0)"

text \<open>\<open>int(s)\<close> for a string of digits.\<close>

definition digit_val :: "char \<Rightarrow> nat" where
  "digit_val c = length (takeWhile (\<lambda>d. d \<noteq> c) ascii_digits)"

definition digits_value :: "string \<Rightarrow> nat" where
  "digits_value s = foldl (\<lambda>acc c. acc * 10 + digit_val c) 0 s"

text \<open>
  \<open>float(s)\<close> for a string of digits with an optional fraction, which is the shape of
  every number token once its commas and its suffix are removed; \<open>None\<close> stands for the
  \<open>ValueError\<close> that the source catches.
\<close>

definition float_of_token :: "string \<Rightarrow> real option" where
  "float_of_token s =
     (let ip = takeWhile is_digit s; rest = dropWhile is_digit s in
      case rest of
        [] \<Rightarrow> (if ip = [] then None else Some (real (digits_value ip)))
      | c # fp \<Rightarrow>
          if c = CHR ''.'' \<and> list_all is_digit fp \<and> (ip \<noteq> [] \<or> fp \<noteq> [])
          then Some (real (digits_value ip) + real (digits_value fp) / 10 ^ length fp)
          else None)"

definition months_hindi :: "(string \<times> int) list" where
  "months_hindi =
     [(''january'', 1),
      (''jan'', 1),
      ([CHR 0xE0, CHR 0xA4, CHR 0x9C, CHR 0xE0, CHR 0xA4, CHR 0xA8, CHR 0xE0, CHR 0xA4, CHR 0xB5, CHR 0xE0, CHR 0xA4, CHR 0xB0, CHR 0xE0, CHR 0xA5, CHR 0x80], 1),
      (''february'', 2),
      (''feb'', 2),
      ([CHR 0xE0, CHR 0xA4, CHR 0xAB, CHR 0xE0, CHR 0xA4, CHR 0xB0, CHR 0xE0, CHR 0xA4, CHR 0xB5, CHR 0xE0, CHR 0xA4, CHR 0xB0, CHR 0xE0, CHR 0xA5, CHR 0x80], 2),
      (''march'', 3),
      (''mar'', 3),
      ([CHR 0xE0, CHR 0xA4, CHR 0xAE, CHR 0xE0, CHR 0xA4, CHR 0xBE, CHR 0xE0, CHR 0xA4, CHR 0xB0, CHR 0xE0, CHR 0xA5, CHR 0x8D, CHR 0xE0, CHR 0xA4, CHR 0x9A], 3),
      (''april'', 4),
      (''apr'', 4),
      ([CHR 0xE0, CHR 0xA4, CHR 0x85, CHR 0xE0, CHR 0xA4, CHR 0xAA, CHR 0xE0, CHR 0xA5, CHR 0x8D, CHR 0xE0, CHR 0xA4, CHR 0xB0, CHR 0xE0, CHR 0xA5, CHR 0x88, CHR 0xE0, CHR 0xA4, CHR 0xB2], 4),
      (''may'', 5),
      ([CHR 0xE0, CHR 0xA4, CHR 0xAE, CHR 0xE0, CHR 0xA4, CHR 0x88], 5),
      (''june'', 6),
      (''jun'', 6),
      ([CHR 0xE0, CHR 0xA4, CHR 0x9C, CHR 0xE0, CHR 0xA5, CHR 0x82, CHR 0xE0, CHR 0xA4, CHR 0xA8], 6),
      (''july'', 7),
      (''jul'', 7),
      ([CHR 0xE0, CHR 0xA4, CHR 0x9C, CHR 0xE0, CHR 0xA5, CHR 0x81, CHR 0xE0, CHR 0xA4, CHR 0xB2, CHR 0xE0, CHR 0xA4, CHR 0xBE, CHR 0xE0, CHR 0xA4, CHR 0x88], 7),
      (''august'', 8),
      (''aug'', 8),
      ([CHR 0xE0, CHR 0xA4, CHR 0x85, CHR 0xE0, CHR 0xA4, CHR 0x97, CHR 0xE0, CHR 0xA4, CHR 0xB8, CHR 0xE0, CHR 0xA5, CHR 0x8D, CHR 0xE0, CHR 0xA4, CHR 0xA4], 8),
      (''september'', 9),
      (''sep'', 9),
      ([CHR 0xE0, CHR 0xA4, CHR 0xB8, CHR 0xE0, CHR 0xA4, CHR 0xBF, CHR 0xE0, CHR 0xA4, CHR 0xA4, CHR 0xE0, CHR 0xA4, CHR 0x82, CHR 0xE0, CHR 0xA4, CHR 0xAC, CHR 0xE0, CHR 0xA4, CHR 0xB0], 9),
      (''october'', 10),
      (''oct'', 10),
      ([CHR 0xE0, CHR 0xA4, CHR 0x85, CHR 0xE0, CHR 0xA4, CHR 0x95, CHR 0xE0, CHR 0xA5, CHR 0x8D, CHR 0xE0, CHR 0xA4, CHR 0x9F, CHR 0xE0, CHR 0xA5, CHR 0x82, CHR 0xE0, CHR 0xA4, CHR 0xAC, CHR 0xE0, CHR 0xA4, CHR 0xB0], 10),
      (''november'', 11),
      (''nov'', 11),
      ([CHR 0xE0, CHR 0xA4, CHR 0xA8, CHR 0xE0, CHR 0xA4, CHR 0xB5, CHR 0xE0, CHR 0xA4, CHR 0x82, CHR 0xE0, CHR 0xA4, CHR 0xAC, CHR 0xE0, CHR 0xA4, CHR 0xB0], 11),
      (''december'', 12),
      (''dec'', 12),
      ([CHR 0xE0, CHR 0xA4, CHR 0xA6, CHR 0xE0, CHR 0xA4, CHR 0xBF, CHR 0xE0, CHR 0xA4, CHR 0xB8, CHR 0xE0, CHR 0xA4, CHR 0x82, CHR 0xE0, CHR 0xA4, CHR 0xAC, CHR 0xE0, CHR 0xA4, CHR 0xB0], 12)]"

text \<open>The month loop: the first name of the table that occurs in the question wins.\<close>

definition year_after :: "string \<Rightarrow> string \<Rightarrow> int option" where
  "year_after month_name question_lower =
     (case re_find_group (Seq (Lit month_name) (Star ws)) (Seqs [digit, digit, digit, digit])
             question_lower of
        None \<Rightarrow> None
      | Some (i, e) \<Rightarrow> Some (int (digits_value (substr question_lower i e))))"

definition extract_date :: "string \<Rightarrow> date_f option" where
  "extract_date question_lower =
     (case List.find (\<lambda>(month_name, month_num). contains question_lower month_name) months_hindi of
        Some (month_name, month_num) \<Rightarrow>
          Some \<lparr>year = year_after month_name question_lower, month = Some month_num\<rparr>
      | None \<Rightarrow>
          (case re_find (Seqs [WordB, Lit ''20'', digit, digit, WordB]) question_lower of
             Some (i, e) \<Rightarrow>
               Some \<lparr>year = Some (int (digits_value (substr question_lower i e))), month = None\<rparr>
           | None \<Rightarrow> None))"

text \<open>\<open>\d+(?:,\d+)*(?:\.\d+)?[kKlL]?\<close>\<close>

definition number_pattern :: rx where
  "number_pattern =
     Seqs [Plus digit, Star (Seq (Lit '','') (Plus digit)), Opt (Seq (Lit ''.'') (Plus digit)),
           Opt (Cls (\<lambda>c. c \<in> set ''kKlL''))]"

text \<open>The body of the token loop: \<open>None\<close> when the token is skipped (\<open>continue\<close>).\<close>

definition process_number :: "string \<Rightarrow> real option" where
  "process_number num_str =
     (let num_clean = py_lower (filter (\<lambda>c. c \<noteq> CHR '','') num_str) in
      if length num_clean = 4 \<and> take 3 num_clean = ''202'' \<and> num_clean ! 3 \<in> set ascii_digits
      then None
      else if CHR ''k'' \<in> set num_clean then
        map_option (\<lambda>v. v * 1000) (float_of_token (filter (\<lambda>c. c \<noteq> CHR ''k'') num_clean))
      else if CHR ''l'' \<in> set num_clean then
        map_option (\<lambda>v. v * 100000) (float_of_token (filter (\<lambda>c. c \<noteq> CHR ''l'') num_clean))
      else float_of_token num_clean)"

definition amounts_of_question :: "string \<Rightarrow> real list" where
  "amounts_of_question question_lower =
     List.map_filter process_number (re_findall number_pattern question_lower)"

definition above_words :: "string list" where
  "above_words = [''above'', ''greater than'', ''more than'', ''over'', ''zyada'', ''se zyada'']"

definition below_words :: "string list" where
  "below_words = [''below'', ''less than'', ''under'', ''kam'', ''se kam'']"

text \<open>
  The amount block \<open>if ... elif ... elif\<close>; it returns the three fields
  \<open>(amount_above, amount_below, amount_range)\<close>.
\<close>

definition extract_amount ::
  "string \<Rightarrow> real option \<times> real option \<times> (real \<times> real) option" where
  "extract_amount question_lower =
     (let amounts_processed = amounts_of_question question_lower in
      if contains question_lower ''between'' \<and> length amounts_processed \<ge> 2 then
        (let min_amt = amounts_processed ! 0; max_amt = amounts_processed ! 1 in
         if min_amt > max_amt then (None, None, Some (max_amt, min_amt))
         else (None, None, Some (min_amt, max_amt)))
      else if list_ex (contains question_lower) above_words then
        (if amounts_processed \<noteq> [] then (Some (amounts_processed ! 0), None, None)
         else (None, None, None))
      else if list_ex (contains question_lower) below_words then
        (if amounts_processed \<noteq> [] then (None, Some (amounts_processed ! 0), None)
         else (None, None, None))
      else (None, None, None))"

definition modes :: "string list" where
  "modes = [''UPI'', ''CASH'', ''NEFT'', ''IMPS'', ''RTGS'', ''DEBIT CARD'', ''CREDIT CARD'']"

definition extract_mode :: "string \<Rightarrow> string option" where
  "extract_mode question_lower = List.find (\<lambda>m. contains question_lower (py_lower m)) modes"

definition credit_hi :: string where
  "credit_hi = [CHR 0xE0, CHR 0xA4, CHR 0x95, CHR 0xE0, CHR 0xA5, CHR 0x8D, CHR 0xE0, CHR 0xA4, CHR 0xB0, CHR 0xE0, CHR 0xA5, CHR 0x87, CHR 0xE0, CHR 0xA4, CHR 0xA1, CHR 0xE0, CHR 0xA4, CHR 0xBF, CHR 0xE0, CHR 0xA4, CHR 0x9F]"

definition debit_hi :: string where
  "debit_hi = [CHR 0xE0, CHR 0xA4, CHR 0xA1, CHR 0xE0, CHR 0xA5, CHR 0x87, CHR 0xE0, CHR 0xA4, CHR 0xAC, CHR 0xE0, CHR 0xA4, CHR 0xBF, CHR 0xE0, CHR 0xA4, CHR 0x9F]"

definition extract_txn_type :: "string \<Rightarrow> string option" where
  "extract_txn_type question_lower =
     (if list_ex (contains question_lower) [''credit'', ''credited'', credit_hi] then Some ''CREDIT''
      else if list_ex (contains question_lower) [''debit'', ''debited'', debit_hi] then Some ''DEBIT''
      else None)"

text \<open>\<open>(?:account|acc|...)\s*(?:number|no|#)?\s*[:=]?\s*([a-zA-Z0-9\-]+)\<close>\<close>

definition extract_account :: "string \<Rightarrow> string option" where
  "extract_account question_lower =
     (case re_find account_pattern question_lower of
        Some (i, e) \<Rightarrow> Some (substr question_lower i e)
      | None \<Rightarrow>
          (case re_find_group
                  (Seqs [Alts [Lit ''account'', Lit ''acc'', Lit khata_hi], Star ws,
                         Opt (Alts [Lit ''number'', Lit ''no'', Lit ''#'']), Star ws,
                         Opt (Cls (\<lambda>c. c \<in> set '':='')), Star ws])
                  (Plus (Cls (\<lambda>c. is_lower c \<or> is_upper c \<or> is_digit c \<or> c = CHR ''-'')))
                  question_lower of
             Some (i, e) \<Rightarrow> Some (substr question_lower i e)
           | None \<Rightarrow> None))"

text \<open>
  The person name: \<open>(?:by|from|to|with|se|ko|...)\s+\<close> followed by the group, on the
  question as typed. Only the first element of \<open>findall\<close> is used, which is the group of
  the first match.
\<close>

definition dwara_hi :: string where
  "dwara_hi = [CHR 0xE0, CHR 0xA4, CHR 0xA6, CHR 0xE0, CHR 0xA5, CHR 0x8D, CHR 0xE0, CHR 0xA4, CHR 0xB5, CHR 0xE0, CHR 0xA4, CHR 0xBE, CHR 0xE0, CHR 0xA4, CHR 0xB0, CHR 0xE0, CHR 0xA4, CHR 0xBE]"

definition name_prefix :: rx where
  "name_prefix =
     Seq (Alts [Lit ''by'', Lit ''from'', Lit ''to'', Lit ''with'', Lit ''se'', Lit ''ko'', Lit dwara_hi])
         (Plus ws)"

definition cap_word :: rx where
  "cap_word = Seq (Cls is_upper) (Plus (Cls is_lower))"

definition py_strip :: "string \<Rightarrow> string" where
  "py_strip s = rev (dropWhile is_space (rev (dropWhile is_space s)))"

definition extract_person :: "string \<Rightarrow> string option \<times> bool" where
  "extract_person question =
     (case re_find_group name_prefix (Seq cap_word (Plus (Seq (Plus ws) cap_word))) question of
        Some (i, e) \<Rightarrow> (Some (py_strip (substr question i e)), True)
      | None \<Rightarrow>
          (case re_find_group name_prefix cap_word question of
             Some (i, e) \<Rightarrow> (Some (py_strip (substr question i e)), False)
           | None \<Rightarrow> (None, False)))"

definition extract_filters_from_query :: "string \<Rightarrow> filters" where
  "extract_filters_from_query question =
     (let question_lower = py_lower question in
      case extract_amount question_lower of (amt_above, amt_below, amt_range) \<Rightarrow>
      case extract_person question of (name, strict) \<Rightarrow>
        \<lparr>amount_above = amt_above, amount_below = amt_below, amount_range = amt_range,
         date_filter = extract_date question_lower,
         mode_filter = extract_mode question_lower,
         type_filter = extract_txn_type question_lower,
         account_id = extract_account question_lower,
         person_name = name, strict_name_match = strict\<rparr>)"

section \<open>The prompt endpoint (app/api/transactions.py)\<close>

text \<open>
  The functions that belong to other components: the query identity (an MD5 digest), the
  text of the statistical answer (number formatting and emoji), and the calls that reach
  the text generator and the similarity index. A call that fails returns an error.
\<close>

record collaborators =
  generate_query_id :: "string \<Rightarrow> filters \<Rightarrow> string"
  statistical_answer :: "string \<Rightarrow> statistics \<Rightarrow> string list \<Rightarrow> string"
  generate_conversational_answer ::
    "string \<Rightarrow> doc list \<Rightarrow> filters \<Rightarrow> string list \<Rightarrow> bool \<Rightarrow> error + string"
  process_analytical_query :: "doc list \<Rightarrow> string \<Rightarrow> error + string"
  process_vector_search_query :: "string \<Rightarrow> nat \<Rightarrow> error + string"

text \<open>\<open>RAGService.process_statistical_query\<close> and \<open>RAGService.process_smart_full_query\<close>.\<close>

definition process_statistical_query ::
  "pylib \<Rightarrow> collaborators \<Rightarrow> doc list \<Rightarrow> string \<Rightarrow>
   error + string \<times> statistics \<times> string list \<times> nat" where
  "process_statistical_query L R documents prompt_text =
     (let F = extract_filters_from_query prompt_text in
      bind_err (calculate_statistics L documents F)
        (\<lambda>stats. bind_err (apply_filters L documents F)
          (\<lambda>(fdocs, filter_desc).
             Inr (statistical_answer R prompt_text stats filter_desc, stats, filter_desc,
                  length fdocs))))"

definition process_smart_full_query ::
  "pylib \<Rightarrow> collaborators \<Rightarrow> doc list \<Rightarrow> string \<Rightarrow> bool \<Rightarrow>
   error + string \<times> doc list \<times> string list" where
  "process_smart_full_query L R documents prompt_text showall =
     (let F = extract_filters_from_query prompt_text in
      bind_err (apply_filters L documents F)
        (\<lambda>(fdocs, filter_descriptions).
           bind_err (generate_conversational_answer R prompt_text fdocs F filter_descriptions showall)
             (\<lambda>ans. Inr (ans, fdocs, filter_descriptions))))"

record prompt_request =
  prompt :: string
  page :: int
  page_size :: int
  show_all :: bool
  use_full_data :: "bool option"
  query_id :: "string option"

record rag_response =
  resp_query_id :: string
  resp_answer :: string
  resp_mode :: query_mode
  matching_transactions_count :: nat
  resp_filters_applied :: "string list option"
  transactions :: "txn_info list option"
  pagination :: "pagination option"
  resp_statistics :: "statistics option"

datatype http_result = HTTP_503 | HTTP_400 | HTTP_500 error | HTTP_200 rag_response

text \<open>
  The global state the endpoint reads: whether the models are set, the ingested
  transactions, and the query cache.
\<close>

record app_state =
  models_set :: bool
  ingested_transactions :: "doc list"
  cache :: query_cache

text \<open>
  The guarded pagination block: when \<open>show_all\<close> is set and the list is not empty, the
  page and its metadata are added to the response.
\<close>

definition add_page :: "pylib \<Rightarrow> prompt_request \<Rightarrow> doc list \<Rightarrow> rag_response \<Rightarrow> error + rag_response" where
  "add_page L request fdocs resp =
     (if show_all request \<and> fdocs \<noteq> [] then
        bind_err (paginate L (page request) (page_size request) fdocs)
          (\<lambda>(txns, meta). Inr (resp\<lparr>transactions := Some txns, pagination := Some meta\<rparr>))
      else Inr resp)"

text \<open>The branch \<open>if cached_data and request.page > 1\<close>: the response built from the entry.\<close>

definition cached_response :: "pylib \<Rightarrow> prompt_request \<Rightarrow> string \<Rightarrow> cache_data \<Rightarrow> error + rag_response" where
  "cached_response L request qid cd =
     add_page L request (filtered_docs cd)
       \<lparr>resp_query_id = qid, resp_answer = answer cd, resp_mode = mode cd,
        matching_transactions_count = length (filtered_docs cd),
        resp_filters_applied = filters_applied cd,
        transactions = None, pagination = None,
        resp_statistics = statistics cd\<rparr>"

text \<open>The keywords and patterns with which the endpoint tests the prompt again.\<close>

definition endpoint_analytical_keywords :: "string list" where
  "endpoint_analytical_keywords =
     [''summarize'', ''summarise'', ''summary'', ''analyze'', ''analyse'',
      ''overview'', ''insights'', ''patterns'', ''trends'']"

definition endpoint_counting_patterns :: "rx list" where
  "endpoint_counting_patterns =
     [Seqs [WordB, counting_words, Plus ws, StarLazy dot, Lit ''transaction''],
      Seqs [Lit ''transaction'', StarLazy dot, WordB, counting_words],
      Seqs [WordB, Alts [Lit kitne_hi, Lit kitni_hi], Plus ws, StarLazy dot,
            Alts [Lit ''transaction'', Lit tranj_hi]],
      Seqs [Alts [Lit ''transaction'', Lit tranj_hi], StarLazy dot, WordB,
            Alts [Lit kitne_hi, Lit kitni_hi]],
      Seqs [WordB, Lit ''number of'', Plus ws, Lit ''transaction'']]"

text \<open>
  The rest of the endpoint, \<open># No cache or page 1\<close>: the full pipeline. It returns the
  response or the exception, and the cache as the branch leaves it; \<open>t_store\<close> is the
  clock reading of \<open>cache_query_results\<close>.
\<close>

definition fresh_response ::
  "pylib \<Rightarrow> collaborators \<Rightarrow> time \<Rightarrow> doc list \<Rightarrow> query_cache \<Rightarrow> prompt_request \<Rightarrow> string \<Rightarrow>
   filters \<Rightarrow> (error + rag_response) \<times> query_cache" where
  "fresh_response L R t_store documents qc request qid F =
     (let md0 = detect_query_mode (prompt request) documents;
          md = (case use_full_data request of
                  None \<Rightarrow> md0
                | Some b \<Rightarrow> if b then SMART_FULL else VECTOR_SEARCH);
          resp = \<lparr>resp_query_id = qid, resp_answer = [], resp_mode = md,
                  matching_transactions_count = 0, resp_filters_applied = None,
                  transactions = None, pagination = None, resp_statistics = None\<rparr>
      in
      if md = STATISTICAL then
        (case process_statistical_query L R documents (prompt request) of
           Inl e \<Rightarrow> (Inl e, qc)
         | Inr (ans, stats, filter_desc, match_count) \<Rightarrow>
             (case apply_filters L documents F of
                Inl e \<Rightarrow> (Inl e, qc)
              | Inr (fdocs, _) \<Rightarrow>
                  (Inr (resp\<lparr>resp_answer := ans, resp_statistics := Some stats,
                              resp_filters_applied := Some filter_desc,
                              matching_transactions_count := match_count\<rparr>),
                   cache_query_results t_store qid ans md fdocs (Some filter_desc) (Some stats) qc)))
      else if md = SMART_FULL \<or> use_full_data request = Some True then
        (case process_smart_full_query L R documents (prompt request) (show_all request) of
           Inl e \<Rightarrow> (Inl e, qc)
         | Inr (ans, fdocs, filter_descriptions) \<Rightarrow>
             (add_page L request fdocs
                (resp\<lparr>resp_answer := ans, matching_transactions_count := length fdocs,
                       resp_filters_applied := Some filter_descriptions\<rparr>),
              cache_query_results t_store qid ans md fdocs (Some filter_descriptions) None qc))
      else
        (let prompt_lower = py_lower (prompt request);
             is_analytical = list_ex (contains prompt_lower) endpoint_analytical_keywords;
             is_counting_query = list_ex (\<lambda>pattern. re_search pattern False prompt_lower)
                                   endpoint_counting_patterns
         in
         if is_analytical \<or> is_counting_query then
           (case process_analytical_query R documents (prompt request) of
              Inl e \<Rightarrow> (Inl e, qc)
            | Inr result \<Rightarrow>
                (Inr (resp\<lparr>resp_answer := result,
                            matching_transactions_count := length documents\<rparr>),
                 cache_query_results t_store qid result md [] None None qc))
         else
           (let k_value = min 50 (length documents) in
            case process_vector_search_query R (prompt request) k_value of
              Inl e \<Rightarrow> (Inl e, qc)
            | Inr result \<Rightarrow>
                (Inr (resp\<lparr>resp_answer := result, matching_transactions_count := k_value\<rparr>),
                 qc))))"

text \<open>
  \<open>query_with_prompt\<close>: the checks that raise 503 and 400, then the \<open>try\<close> block, in
  which every exception becomes the response 500. \<open>t_sweep\<close> and \<open>t_check\<close> are the clock
  readings of \<open>get_cached_query\<close>. The result is the HTTP response and the query cache
  the request leaves behind.
\<close>

definition query_with_prompt ::
  "pylib \<Rightarrow> collaborators \<Rightarrow> time \<Rightarrow> time \<Rightarrow> time \<Rightarrow> app_state \<Rightarrow> prompt_request \<Rightarrow>
   http_result \<times> query_cache" where
  "query_with_prompt L R t_sweep t_check t_store st request =
     (if \<not> models_set st then (HTTP_503, cache st)
      else if \<not> length (ingested_transactions st) > 0 then (HTTP_400, cache st)
      else
        (let documents = ingested_transactions st;
             F = extract_filters_from_query (prompt request);
             qid = (case query_id request of
                      Some q \<Rightarrow> if q \<noteq> [] then q else generate_query_id R (prompt request) F
                    | None \<Rightarrow> generate_query_id R (prompt request) F)
         in case get_cached_query t_sweep t_check qid (cache st) of
              (cached, qc) \<Rightarrow>
                if cached \<noteq> None \<and> page request > 1 then
                  (case cached_response L request qid (the cached) of
                     Inl e \<Rightarrow> (HTTP_500 e, qc)
                   | Inr resp \<Rightarrow> (HTTP_200 resp, qc))
                else
                  (case fresh_response L R t_store documents qc request qid F of
                     (Inl e, qc') \<Rightarrow> (HTTP_500 e, qc')
                   | (Inr resp, qc') \<Rightarrow> (HTTP_200 resp, qc'))))"

section \<open>The cache: expiry and sweep\<close>

lemma cleanup_expired_cache_Some:
  "cleanup_expired_cache t qc k = Some e \<longleftrightarrow>
     qc k = Some e \<and> t - timestamp e \<le> timedelta_minutes CACHE_TTL_MINUTES"
  by (auto simp: cleanup_expired_cache_def split: option.splits)

lemma get_cached_query_fst:
  "fst (get_cached_query t1 t2 k qc) = Some e \<longleftrightarrow>
     qc k = Some e \<and> t1 - timestamp e \<le> timedelta_minutes CACHE_TTL_MINUTES
       \<and> t2 - timestamp e \<le> timedelta_minutes CACHE_TTL_MINUTES"
  unfolding get_cached_query_def Let_def cleanup_expired_cache_def
  by (cases "qc k") auto

lemma get_cached_query_snd:
  "snd (get_cached_query t1 t2 k qc) k' = Some e \<longleftrightarrow>
     qc k' = Some e \<and> t1 - timestamp e \<le> timedelta_minutes CACHE_TTL_MINUTES
       \<and> (k' = k \<longrightarrow> t2 - timestamp e \<le> timedelta_minutes CACHE_TTL_MINUTES)"
  unfolding get_cached_query_def Let_def cleanup_expired_cache_def
  by (cases "qc k"; cases "qc k'") auto

lemma get_cached_query_miss:
  "fst (get_cached_query t1 t2 k qc) = None \<Longrightarrow> snd (get_cached_query t1 t2 k qc) k = None"
  unfolding get_cached_query_def Let_def cleanup_expired_cache_def
  by (cases "qc k") (auto split: if_splits)

text \<open>
  Claim C4, with the two clock readings of the code. \<open>get_cached_query\<close> reads the clock
  in the sweep (\<open>t1\<close>) and again when it checks the entry it found (\<open>t2\<close>), with
  \<open>t1 \<le> t2\<close>. It returns the stored entry exactly when the key is present and the entry's
  age at \<open>t2\<close> is at most the TTL; otherwise it reports a miss and the entry of the key is
  gone. Every lookup sweeps the store: no entry that is older than the TTL at the sweep's
  reading \<open>t1\<close> remains, and every entry not older than the TTL at \<open>t2\<close> is kept; when
  both readings are the same instant, nothing older than the TTL remains. An entry inserted
  at \<open>t0\<close> is returned by every lookup up to \<open>t0 + TTL\<close> and evicted by the first lookup
  after it.
\<close>

theorem get_cached_query_ttl:
  assumes "t1 \<le> t2"
  shows "(fst (get_cached_query t1 t2 k qc) = Some e \<longleftrightarrow>
            qc k = Some e \<and> t2 - timestamp e \<le> timedelta_minutes CACHE_TTL_MINUTES)
       \<and> (fst (get_cached_query t1 t2 k qc) = None \<longrightarrow>
            snd (get_cached_query t1 t2 k qc) k = None)
       \<and> (\<forall>k' e'. snd (get_cached_query t1 t2 k qc) k' = Some e' \<longrightarrow>
            qc k' = Some e' \<and> t1 - timestamp e' \<le> timedelta_minutes CACHE_TTL_MINUTES)
       \<and> (\<forall>k' e'. qc k' = Some e' \<and> t2 - timestamp e' \<le> timedelta_minutes CACHE_TTL_MINUTES \<longrightarrow>
            snd (get_cached_query t1 t2 k qc) k' = Some e')
       \<and> (t1 = t2 \<longrightarrow> (\<forall>k' e'. snd (get_cached_query t1 t2 k qc) k' = Some e' \<longrightarrow>
            t2 - timestamp e' \<le> timedelta_minutes CACHE_TTL_MINUTES))
       \<and> (t2 \<le> t0 + timedelta_minutes CACHE_TTL_MINUTES \<longrightarrow>
            fst (get_cached_query t1 t2 k (cache_query_results t0 k a m ds fa st qc))
              = Some \<lparr>answer = a, mode = m, filtered_docs = ds, filters_applied = fa,
                      statistics = st, timestamp = t0\<rparr>)
       \<and> (t0 + timedelta_minutes CACHE_TTL_MINUTES < t2 \<longrightarrow>
            fst (get_cached_query t1 t2 k (cache_query_results t0 k a m ds fa st qc)) = None
          \<and> snd (get_cached_query t1 t2 k (cache_query_results t0 k a m ds fa st qc)) k = None)"
proof -
  let ?qc = "cache_query_results t0 k a m ds fa st qc"
  have hit: "fst (get_cached_query t1 t2 k qc) = Some e \<longleftrightarrow>
            qc k = Some e \<and> t2 - timestamp e \<le> timedelta_minutes CACHE_TTL_MINUTES"
    using assms by (auto simp: get_cached_query_fst)
  have miss: "fst (get_cached_query t1 t2 k qc) = None \<longrightarrow>
            snd (get_cached_query t1 t2 k qc) k = None"
    using get_cached_query_miss by blast
  have swept: "\<forall>k' e'. snd (get_cached_query t1 t2 k qc) k' = Some e' \<longrightarrow>
            qc k' = Some e' \<and> t1 - timestamp e' \<le> timedelta_minutes CACHE_TTL_MINUTES"
    by (simp add: get_cached_query_snd)
  have kept: "\<forall>k' e'. qc k' = Some e' \<and> t2 - timestamp e' \<le> timedelta_minutes CACHE_TTL_MINUTES \<longrightarrow>
            snd (get_cached_query t1 t2 k qc) k' = Some e'"
    using assms by (simp add: get_cached_query_snd)
  have fresh: "t1 = t2 \<longrightarrow> (\<forall>k' e'. snd (get_cached_query t1 t2 k qc) k' = Some e' \<longrightarrow>
            t2 - timestamp e' \<le> timedelta_minutes CACHE_TTL_MINUTES)"
    by (simp add: get_cached_query_snd)
  have early: "t2 \<le> t0 + timedelta_minutes CACHE_TTL_MINUTES \<longrightarrow>
            fst (get_cached_query t1 t2 k ?qc)
              = Some \<lparr>answer = a, mode = m, filtered_docs = ds, filters_applied = fa,
                      statistics = st, timestamp = t0\<rparr>"
    using assms by (simp add: get_cached_query_fst cache_query_results_def)
  have late: "t0 + timedelta_minutes CACHE_TTL_MINUTES < t2 \<longrightarrow>
            fst (get_cached_query t1 t2 k ?qc) = None \<and> snd (get_cached_query t1 t2 k ?qc) k = None"
  proof
    assume late: "t0 + timedelta_minutes CACHE_TTL_MINUTES < t2"
    have "fst (get_cached_query t1 t2 k ?qc) \<noteq> Some e''" for e''
      using late by (simp add: get_cached_query_fst cache_query_results_def) auto
    then have none: "fst (get_cached_query t1 t2 k ?qc) = None"
      by (cases "fst (get_cached_query t1 t2 k ?qc)") auto
    with get_cached_query_miss [OF none]
    show "fst (get_cached_query t1 t2 k ?qc) = None \<and> snd (get_cached_query t1 t2 k ?qc) k = None"
      by simp
  qed
  from hit miss swept kept fresh early late show ?thesis by blast
qed

text \<open>
  An entry stored at time 0 is returned by a lookup made exactly 30 minutes later, also
  when the sweep read the clock one microsecond before the check, and is evicted by a
  lookup made one microsecond after that.
\<close>

theorem get_cached_query_ttl_witness:
  "(1800000000::int) \<le> 1800000000 \<and> (1799999999::int) \<le> 1800000000
   \<and> (1800000001::int) \<le> 1800000001
   \<and> fst (get_cached_query 1800000000 1800000000 ''q''
            (cache_query_results 0 ''q'' ''ans'' SMART_FULL [] None None Map.empty))
       = Some \<lparr>answer = ''ans'', mode = SMART_FULL, filtered_docs = [], filters_applied = None,
               statistics = None, timestamp = 0\<rparr>
   \<and> fst (get_cached_query 1799999999 1800000000 ''q''
            (cache_query_results 0 ''q'' ''ans'' SMART_FULL [] None None Map.empty))
       = Some \<lparr>answer = ''ans'', mode = SMART_FULL, filtered_docs = [], filters_applied = None,
               statistics = None, timestamp = 0\<rparr>
   \<and> fst (get_cached_query 1800000001 1800000001 ''q''
            (cache_query_results 0 ''q'' ''ans'' SMART_FULL [] None None Map.empty)) = None
   \<and> snd (get_cached_query 1800000001 1800000001 ''q''
            (cache_query_results 0 ''q'' ''ans'' SMART_FULL [] None None Map.empty)) ''q'' = None"
  using get_cached_query_ttl [of 1800000000 1800000000 "''q''" Map.empty _ 0
          "''ans''" SMART_FULL "[]" None None]
        get_cached_query_ttl [of 1799999999 1800000000 "''q''" Map.empty _ 0
          "''ans''" SMART_FULL "[]" None None]
        get_cached_query_ttl [of 1800000001 1800000001 "''q''" Map.empty _ 0
          "''ans''" SMART_FULL "[]" None None]
  by (simp add: timedelta_minutes_def CACHE_TTL_MINUTES_def)

text \<open>
  Claim C4 as stated fails when time passes between the two clock readings. The store
  holds the key \<open>other\<close>, stamped 0, and the key \<open>q\<close>, stamped 1800000000. A lookup of
  \<open>q\<close> sweeps at 1800000000, when \<open>other\<close> is exactly 30 minutes old and stays, and checks
  \<open>q\<close> at 1800000001: it returns the entry of \<open>q\<close>, and \<open>other\<close>, now older than the
  TTL, is still in the store.
\<close>

theorem sweep_reading_counterexample:
  "(1800000000::int) \<le> 1800000001
   \<and> fst (get_cached_query 1800000000 1800000001 ''q''
            (cache_query_results 1800000000 ''q'' ''ans'' SMART_FULL [] None None
               (cache_query_results 0 ''other'' ''old'' SMART_FULL [] None None Map.empty)))
       = Some \<lparr>answer = ''ans'', mode = SMART_FULL, filtered_docs = [], filters_applied = None,
               statistics = None, timestamp = 1800000000\<rparr>
   \<and> snd (get_cached_query 1800000000 1800000001 ''q''
            (cache_query_results 1800000000 ''q'' ''ans'' SMART_FULL [] None None
               (cache_query_results 0 ''other'' ''old'' SMART_FULL [] None None Map.empty))) ''other''
       = Some \<lparr>answer = ''old'', mode = SMART_FULL, filtered_docs = [], filters_applied = None,
               statistics = None, timestamp = 0\<rparr>
   \<and> 1800000001 - timestamp \<lparr>answer = ''old'', mode = SMART_FULL, filtered_docs = [],
                                filters_applied = None, statistics = None, timestamp = 0\<rparr>
       > timedelta_minutes CACHE_TTL_MINUTES"
  by (simp add: get_cached_query_def cleanup_expired_cache_def cache_query_results_def
        timedelta_minutes_def CACHE_TTL_MINUTES_def)

section \<open>The Filter Applicator\<close>

lemmas stage_defs = apply_filters_def date_stage_def mode_stage_def type_stage_def
  amount_stage_def account_stage_def person_stage_def truthy_date_def truthy_str_def
  truthy_num_def bind_err_def


lemma filter_err_Inr:
  "filter_err p xs = Inr ys \<Longrightarrow>
     ys = filter (\<lambda>x. p x = Inr True) xs \<and> (\<forall>x\<in>set xs. \<exists>b. p x = Inr b)"
  by (induction xs arbitrary: ys) (auto split: sum.splits if_splits)

lemma filter_err_total:
  "(\<forall>x\<in>set xs. \<exists>b. p x = Inr b) \<Longrightarrow> filter_err p xs = Inr (filter (\<lambda>x. p x = Inr True) xs)"
  by (induction xs) auto

lemma filter_err_id:
  assumes "\<forall>x\<in>set zs. p x = Inr True"
  shows "filter_err p zs = Inr zs"
proof -
  from assms have "filter_err p zs = Inr (filter (\<lambda>x. p x = Inr True) zs)"
    by (intro filter_err_total) auto
  moreover from assms have "filter (\<lambda>x. p x = Inr True) zs = zs"
    by (simp add: filter_id_conv)
  ultimately show ?thesis by simp
qed

lemma filter_block_stable:
  assumes "bind_err (filter_err p xs) (\<lambda>nf. Inr (nf, g nf)) = Inr (ys, ds')"
  shows "set ys \<subseteq> set xs" and "\<forall>x\<in>set ys. p x = Inr True" and "ds' = g ys"
    and "set zs \<subseteq> set ys \<Longrightarrow> filter_err p zs = Inr zs"
proof -
  from assms have fe: "filter_err p xs = Inr ys" and d: "ds' = g ys"
    by (auto simp: bind_err_def split: sum.splits)
  from filter_err_Inr [OF fe] show "set ys \<subseteq> set xs" and t: "\<forall>x\<in>set ys. p x = Inr True"
    by auto
  show "ds' = g ys" by (rule d)
  show "filter_err p zs = Inr zs" if "set zs \<subseteq> set ys"
    using that t by (intro filter_err_id) auto
qed

lemma date_stage_stable:
  assumes "date_stage L F (xs, ds) = Inr (ys, ds')"
  shows "set ys \<subseteq> set xs \<and> (\<forall>zs. set zs \<subseteq> set ys \<longrightarrow> date_stage L F (zs, ds) = Inr (zs, ds'))"
proof (cases "truthy_date (date_filter F)")
  case False
  with assms show ?thesis by (simp add: date_stage_def)
next
  case True
  let ?df = "the (date_filter F)"
  from assms True have ys: "ys = filter (date_match L ?df) xs"
    by (auto simp: date_stage_def Let_def bind_err_def split: option.splits sum.splits)
  have keep: "filter (date_match L ?df) zs = zs" if "set zs \<subseteq> set ys" for zs
    using that ys by (auto simp: filter_id_conv)
  from assms True keep ys show ?thesis
    by (auto simp: date_stage_def Let_def bind_err_def split: option.splits sum.splits)
qed

lemma mode_stage_stable:
  assumes "mode_stage L F (xs, ds) = Inr (ys, ds')"
  shows "set ys \<subseteq> set xs \<and> (\<forall>zs. set zs \<subseteq> set ys \<longrightarrow> mode_stage L F (zs, ds) = Inr (zs, ds'))"
proof (cases "truthy_str (mode_filter F)")
  case False
  with assms show ?thesis by (simp add: mode_stage_def)
next
  case True
  with assms have b: "bind_err (filter_err (mode_match (the (mode_filter F))) xs)
      (\<lambda>nf. Inr (nf, ds @ [''Mode: '' @ the (mode_filter F)])) = Inr (ys, ds')"
    by (simp add: mode_stage_def Let_def)
  from filter_block_stable [OF b] True show ?thesis
    by (auto simp: mode_stage_def Let_def bind_err_def)
qed


lemma type_stage_stable:
  assumes "type_stage L F (xs, ds) = Inr (ys, ds')"
  shows "set ys \<subseteq> set xs \<and> (\<forall>zs. set zs \<subseteq> set ys \<longrightarrow> type_stage L F (zs, ds) = Inr (zs, ds'))"
proof (cases "truthy_str (type_filter F)")
  case False
  with assms show ?thesis by (simp add: type_stage_def)
next
  case True
  with assms have b: "bind_err (filter_err (type_match (the (type_filter F))) xs)
      (\<lambda>nf. Inr (nf, ds @ [''Type: '' @ the (type_filter F)])) = Inr (ys, ds')"
    by (simp add: type_stage_def Let_def)
  from filter_block_stable [OF b] True show ?thesis
    by (auto simp: type_stage_def Let_def bind_err_def)
qed

lemma amount_stage_stable:
  assumes "amount_stage L F (xs, ds) = Inr (ys, ds')"
  shows "set ys \<subseteq> set xs \<and> (\<forall>zs. set zs \<subseteq> set ys \<longrightarrow> amount_stage L F (zs, ds) = Inr (zs, ds'))"
proof -
  consider (range) "amount_range F \<noteq> None"
    | (above) "amount_range F = None" "truthy_num (amount_above F)"
    | (below) "amount_range F = None" "\<not> truthy_num (amount_above F)" "truthy_num (amount_below F)"
    | (none) "amount_range F = None" "\<not> truthy_num (amount_above F)" "\<not> truthy_num (amount_below F)"
    by blast
  then show ?thesis
  proof cases
    case range
    obtain lo hi where r: "the (amount_range F) = (lo, hi)"
      by (cases "the (amount_range F)")
    with assms range have b: "bind_err (filter_err (range_match L lo hi) xs)
        (\<lambda>nf. Inr (nf, ds @ [''Amount: '' @ rupee @ format_money L lo @ '' - ''
                                   @ rupee @ format_money L hi])) = Inr (ys, ds')"
      by (simp add: amount_stage_def)
    from filter_block_stable [OF b] range r show ?thesis
      by (auto simp: amount_stage_def bind_err_def)
  next
    case above
    with assms have b: "bind_err (filter_err (above_match L (the (amount_above F))) xs)
        (\<lambda>nf. Inr (nf, ds @ [''Amount above: '' @ rupee @ format_money L (the (amount_above F))]))
          = Inr (ys, ds')"
      by (simp add: amount_stage_def Let_def)
    from filter_block_stable [OF b] above show ?thesis
      by (auto simp: amount_stage_def Let_def bind_err_def)
  next
    case below
    with assms have b: "bind_err (filter_err (below_match L (the (amount_below F))) xs)
        (\<lambda>nf. Inr (nf, ds @ [''Amount below: '' @ rupee @ format_money L (the (amount_below F))]))
          = Inr (ys, ds')"
      by (simp add: amount_stage_def Let_def)
    from filter_block_stable [OF b] below show ?thesis
      by (auto simp: amount_stage_def Let_def bind_err_def)
  next
    case none
    with assms show ?thesis by (simp add: amount_stage_def)
  qed
qed

lemma account_stage_stable:
  assumes "account_stage L F (xs, ds) = Inr (ys, ds')"
  shows "set ys \<subseteq> set xs \<and> (\<forall>zs. set zs \<subseteq> set ys \<longrightarrow> account_stage L F (zs, ds) = Inr (zs, ds'))"
proof (cases "truthy_str (account_id F)")
  case False
  with assms show ?thesis by (simp add: account_stage_def)
next
  case True
  with assms have b: "bind_err (filter_err (account_match (the (account_id F))) xs)
      (\<lambda>nf. Inr (nf, ds @ [''Account: '' @ the (account_id F)])) = Inr (ys, ds')"
    by (simp add: account_stage_def Let_def)
  from filter_block_stable [OF b] True show ?thesis
    by (auto simp: account_stage_def Let_def bind_err_def)
qed

lemma person_stage_stable:
  assumes "person_stage L F (xs, ds) = Inr (ys, ds')"
  shows "set ys \<subseteq> set xs \<and> (\<forall>zs. set zs \<subseteq> set ys \<longrightarrow> person_stage L F (zs, ds) = Inr (zs, ds'))"
proof (cases "truthy_str (person_name F)")
  case False
  with assms show ?thesis by (simp add: person_stage_def)
next
  case True
  show ?thesis
  proof (cases "strict_name_match F")
    case strict: True
    with assms True have b: "bind_err (filter_err (strict_name_matches (the (person_name F))) xs)
        (\<lambda>nf. Inr (nf, ds @ [''EXACT name: '' @ quote @ the (person_name F) @ quote])) = Inr (ys, ds')"
      by (simp add: person_stage_def Let_def)
    from filter_block_stable [OF b] True strict show ?thesis
      by (auto simp: person_stage_def Let_def bind_err_def)
  next
    case loose: False
    with assms True have b: "bind_err (filter_err (loose_name_matches (the (person_name F))) xs)
        (\<lambda>nf. Inr (nf, ds @ [''Person: '' @ quote @ the (person_name F) @ quote])) = Inr (ys, ds')"
      by (simp add: person_stage_def Let_def)
    from filter_block_stable [OF b] True loose show ?thesis
      by (auto simp: person_stage_def Let_def bind_err_def)
  qed
qed

lemma apply_filters_stages:
  assumes "apply_filters L D F = Inr (out, ds)"
  obtains x1 d1 x2 d2 x3 d3 x4 d4 x5 d5 where
    "date_stage L F (D, []) = Inr (x1, d1)"
    "mode_stage L F (x1, d1) = Inr (x2, d2)"
    "type_stage L F (x2, d2) = Inr (x3, d3)"
    "amount_stage L F (x3, d3) = Inr (x4, d4)"
    "account_stage L F (x4, d4) = Inr (x5, d5)"
    "person_stage L F (x5, d5) = Inr (out, ds)"
  using assms unfolding apply_filters_def bind_err_def
  by (auto split: sum.splits)

text \<open>
  Claim C6. Whenever \<open>apply_filters\<close> returns a filtered list for a record set and a
  Filter Set, applying it with the same Filter Set to that filtered list returns the same
  list (and the same descriptions): the Filter Applicator is idempotent.
\<close>

theorem apply_filters_idempotent:
  assumes "apply_filters L D F = Inr (out, ds)"
  shows "apply_filters L out F = Inr (out, ds)"
proof -
  from assms obtain x1 d1 x2 d2 x3 d3 x4 d4 x5 d5 where
    s1: "date_stage L F (D, []) = Inr (x1, d1)" and
    s2: "mode_stage L F (x1, d1) = Inr (x2, d2)" and
    s3: "type_stage L F (x2, d2) = Inr (x3, d3)" and
    s4: "amount_stage L F (x3, d3) = Inr (x4, d4)" and
    s5: "account_stage L F (x4, d4) = Inr (x5, d5)" and
    s6: "person_stage L F (x5, d5) = Inr (out, ds)"
    by (rule apply_filters_stages)
  note a1 = date_stage_stable [OF s1] and a2 = mode_stage_stable [OF s2]
    and a3 = type_stage_stable [OF s3] and a4 = amount_stage_stable [OF s4]
    and a5 = account_stage_stable [OF s5] and a6 = person_stage_stable [OF s6]
  from a6 have o5: "set out \<subseteq> set x5" by simp
  with a5 have o4: "set out \<subseteq> set x4" by blast
  with a4 have o3: "set out \<subseteq> set x3" by blast
  with a3 have o2: "set out \<subseteq> set x2" by blast
  with a2 have o1: "set out \<subseteq> set x1" by blast
  have r1: "date_stage L F (out, []) = Inr (out, d1)" using a1 o1 by simp
  have r2: "mode_stage L F (out, d1) = Inr (out, d2)" using a2 o2 by simp
  have r3: "type_stage L F (out, d2) = Inr (out, d3)" using a3 o3 by simp
  have r4: "amount_stage L F (out, d3) = Inr (out, d4)" using a4 o4 by simp
  have r5: "account_stage L F (out, d4) = Inr (out, d5)" using a5 o5 by simp
  have r6: "person_stage L F (out, d5) = Inr (out, ds)" using a6 by simp
  show ?thesis
    by (simp add: apply_filters_def bind_err_def r1 r2 r3 r4 r5 r6)
qed


text \<open>A run on two records, and a second run on its output.\<close>

theorem apply_filters_idempotent_witness:
  "\<forall>L. apply_filters L [[''amount'' \<mapsto> JNum 100], [''amount'' \<mapsto> JNum 300]]
            (no_filters\<lparr>amount_above := Some 150\<rparr>)
          = Inr ([[''amount'' \<mapsto> JNum 300]], [''Amount above: '' @ rupee @ format_money L 150])
      \<and> apply_filters L [[''amount'' \<mapsto> JNum 300]] (no_filters\<lparr>amount_above := Some 150\<rparr>)
          = Inr ([[''amount'' \<mapsto> JNum 300]], [''Amount above: '' @ rupee @ format_money L 150])"
proof
  fix L
  have h: "apply_filters L [[''amount'' \<mapsto> JNum 100], [''amount'' \<mapsto> JNum 300]]
            (no_filters\<lparr>amount_above := Some 150\<rparr>)
          = Inr ([[''amount'' \<mapsto> JNum 300]], [''Amount above: '' @ rupee @ format_money L 150])"
    by (simp add: stage_defs no_filters_def above_match_def amount_of_def dget_def)
  from h apply_filters_idempotent [OF h]
  show "apply_filters L [[''amount'' \<mapsto> JNum 100], [''amount'' \<mapsto> JNum 300]]
            (no_filters\<lparr>amount_above := Some 150\<rparr>)
          = Inr ([[''amount'' \<mapsto> JNum 300]], [''Amount above: '' @ rupee @ format_money L 150])
      \<and> apply_filters L [[''amount'' \<mapsto> JNum 300]] (no_filters\<lparr>amount_above := Some 150\<rparr>)
          = Inr ([[''amount'' \<mapsto> JNum 300]], [''Amount above: '' @ rupee @ format_money L 150])"
    by simp
qed

section \<open>Amount thresholds\<close>

lemma above_match_True:
  "above_match L t d = Inr True \<longleftrightarrow> (\<exists>a. amount_of L d = Inr a \<and> t < a)"
  by (cases "amount_of L d") (auto simp: above_match_def bind_err_def)

lemma below_match_True:
  "below_match L t d = Inr True \<longleftrightarrow> (\<exists>a. amount_of L d = Inr a \<and> a < t)"
  by (cases "amount_of L d") (auto simp: below_match_def bind_err_def)

lemma apply_filters_subset_amount:
  assumes "apply_filters L D F = Inr (out, ds)"
  obtains x3 d3 x4 d4 where "amount_stage L F (x3, d3) = Inr (x4, d4)" "set out \<subseteq> set x4"
proof -
  from assms obtain x1 d1 x2 d2 x3 d3 x4 d4 x5 d5 where
    s4: "amount_stage L F (x3, d3) = Inr (x4, d4)" and
    s5: "account_stage L F (x4, d4) = Inr (x5, d5)" and
    s6: "person_stage L F (x5, d5) = Inr (out, ds)"
    by (rule apply_filters_stages)
  from person_stage_stable [OF s6] account_stage_stable [OF s5] have "set out \<subseteq> set x4"
    by blast
  with s4 that show ?thesis by blast
qed

text \<open>
  The amount bound for a threshold other than zero. With \<open>amount_above = t\<close>, \<open>t \<noteq> 0\<close> and no
  range, every record that the Filter Applicator keeps has an amount strictly greater
  than \<open>t\<close>; with \<open>amount_below = t\<close>, \<open>t \<noteq> 0\<close>, no range and no active
  \<open>amount_above\<close>, strictly less than \<open>t\<close>. When no other filter is active and every
  amount is a number, the result is exactly the list of the input records beyond the
  bound (a missing amount counts as 0), in input order.
\<close>

theorem amount_threshold_exclusive:
  "(amount_range F = None \<and> amount_above F = Some t \<and> t \<noteq> 0
      \<and> apply_filters L docs F = Inr (out, ds)
     \<longrightarrow> (\<forall>d\<in>set out. \<exists>a. amount_of L d = Inr a \<and> t < a))
 \<and> (amount_range F = None \<and> \<not> truthy_num (amount_above F) \<and> amount_below F = Some t \<and> t \<noteq> 0
      \<and> apply_filters L docs F = Inr (out, ds)
     \<longrightarrow> (\<forall>d\<in>set out. \<exists>a. amount_of L d = Inr a \<and> a < t))
 \<and> (amount_range F = None \<and> amount_above F = Some t \<and> t \<noteq> 0
      \<and> \<not> truthy_date (date_filter F) \<and> \<not> truthy_str (mode_filter F)
      \<and> \<not> truthy_str (type_filter F) \<and> \<not> truthy_str (account_id F)
      \<and> \<not> truthy_str (person_name F)
      \<and> (\<forall>d\<in>set docs. \<exists>a. amount_of L d = Inr a)
     \<longrightarrow> apply_filters L docs F
           = Inr (filter (\<lambda>d. \<exists>a. amount_of L d = Inr a \<and> t < a) docs,
                  [''Amount above: '' @ rupee @ format_money L t]))
 \<and> (amount_range F = None \<and> \<not> truthy_num (amount_above F) \<and> amount_below F = Some t \<and> t \<noteq> 0
      \<and> \<not> truthy_date (date_filter F) \<and> \<not> truthy_str (mode_filter F)
      \<and> \<not> truthy_str (type_filter F) \<and> \<not> truthy_str (account_id F)
      \<and> \<not> truthy_str (person_name F)
      \<and> (\<forall>d\<in>set docs. \<exists>a. amount_of L d = Inr a)
     \<longrightarrow> apply_filters L docs F
           = Inr (filter (\<lambda>d. \<exists>a. amount_of L d = Inr a \<and> a < t) docs,
                  [''Amount below: '' @ rupee @ format_money L t]))"
proof -
  have sound_above: "\<forall>d\<in>set out. \<exists>a. amount_of L d = Inr a \<and> t < a"
    if "amount_range F = None" "amount_above F = Some t" "t \<noteq> 0"
       "apply_filters L docs F = Inr (out, ds)"
  proof -
    from that(4) obtain x3 d3 x4 d4 where
      s4: "amount_stage L F (x3, d3) = Inr (x4, d4)" and sub: "set out \<subseteq> set x4"
      by (rule apply_filters_subset_amount)
    from s4 that(1-3) have "bind_err (filter_err (above_match L t) x3)
        (\<lambda>nf. Inr (nf, d3 @ [''Amount above: '' @ rupee @ format_money L t])) = Inr (x4, d4)"
      by (simp add: amount_stage_def truthy_num_def Let_def)
    from filter_block_stable(2) [OF this] sub show ?thesis
      by (auto simp: above_match_True)
  qed
  have sound_below: "\<forall>d\<in>set out. \<exists>a. amount_of L d = Inr a \<and> a < t"
    if "amount_range F = None" "\<not> truthy_num (amount_above F)" "amount_below F = Some t" "t \<noteq> 0"
       "apply_filters L docs F = Inr (out, ds)"
  proof -
    from that(5) obtain x3 d3 x4 d4 where
      s4: "amount_stage L F (x3, d3) = Inr (x4, d4)" and sub: "set out \<subseteq> set x4"
      by (rule apply_filters_subset_amount)
    from s4 that(1-4) have "bind_err (filter_err (below_match L t) x3)
        (\<lambda>nf. Inr (nf, d3 @ [''Amount below: '' @ rupee @ format_money L t])) = Inr (x4, d4)"
      by (simp add: amount_stage_def truthy_num_def Let_def)
    from filter_block_stable(2) [OF this] sub show ?thesis
      by (auto simp: below_match_True)
  qed
  have exact_above: "apply_filters L docs F
           = Inr (filter (\<lambda>d. \<exists>a. amount_of L d = Inr a \<and> t < a) docs,
                  [''Amount above: '' @ rupee @ format_money L t])"
    if "amount_range F = None" "amount_above F = Some t" "t \<noteq> 0"
       "\<not> truthy_date (date_filter F)" "\<not> truthy_str (mode_filter F)"
       "\<not> truthy_str (type_filter F)" "\<not> truthy_str (account_id F)"
       "\<not> truthy_str (person_name F)" "\<forall>d\<in>set docs. \<exists>a. amount_of L d = Inr a"
  proof -
    from that(9) have "\<forall>d\<in>set docs. \<exists>b. above_match L t d = Inr b"
      by (auto simp: above_match_def bind_err_def)
    from filter_err_total [OF this]
    have "filter_err (above_match L t) docs
            = Inr (filter (\<lambda>d. \<exists>a. amount_of L d = Inr a \<and> t < a) docs)"
      by (simp add: above_match_True)
    with that(1-8) show ?thesis
      by (simp add: apply_filters_def date_stage_def mode_stage_def type_stage_def
            amount_stage_def account_stage_def person_stage_def truthy_num_def bind_err_def)
  qed
  have exact_below: "apply_filters L docs F
           = Inr (filter (\<lambda>d. \<exists>a. amount_of L d = Inr a \<and> a < t) docs,
                  [''Amount below: '' @ rupee @ format_money L t])"
    if "amount_range F = None" "\<not> truthy_num (amount_above F)" "amount_below F = Some t" "t \<noteq> 0"
       "\<not> truthy_date (date_filter F)" "\<not> truthy_str (mode_filter F)"
       "\<not> truthy_str (type_filter F)" "\<not> truthy_str (account_id F)"
       "\<not> truthy_str (person_name F)" "\<forall>d\<in>set docs. \<exists>a. amount_of L d = Inr a"
  proof -
    from that(10) have "\<forall>d\<in>set docs. \<exists>b. below_match L t d = Inr b"
      by (auto simp: below_match_def bind_err_def)
    from filter_err_total [OF this]
    have "filter_err (below_match L t) docs
            = Inr (filter (\<lambda>d. \<exists>a. amount_of L d = Inr a \<and> a < t) docs)"
      by (simp add: below_match_True)
    with that(1-9) show ?thesis
      by (simp add: apply_filters_def date_stage_def mode_stage_def type_stage_def
            amount_stage_def account_stage_def person_stage_def truthy_num_def bind_err_def)
  qed
  from sound_above sound_below exact_above exact_below show ?thesis
    by blast
qed

text \<open>Amounts 100, 150 and 300 against the bound 150: the bound itself is excluded.\<close>

theorem amount_threshold_exclusive_witness:
  "\<forall>L. apply_filters L [[''amount'' \<mapsto> JNum 100], [''amount'' \<mapsto> JNum 150], [''amount'' \<mapsto> JNum 300]]
            (no_filters\<lparr>amount_above := Some 150\<rparr>)
          = Inr ([[''amount'' \<mapsto> JNum 300]], [''Amount above: '' @ rupee @ format_money L 150])
      \<and> apply_filters L [[''amount'' \<mapsto> JNum 100], [''amount'' \<mapsto> JNum 150], [''amount'' \<mapsto> JNum 300]]
            (no_filters\<lparr>amount_below := Some 150\<rparr>)
          = Inr ([[''amount'' \<mapsto> JNum 100]], [''Amount below: '' @ rupee @ format_money L 150])"
proof
  fix L
  let ?docs = "[[''amount'' \<mapsto> JNum 100], [''amount'' \<mapsto> JNum 150], [''amount'' \<mapsto> JNum (300::real)]]"
  have amts: "\<forall>d\<in>set ?docs. \<exists>a. amount_of L d = Inr a"
    by (simp add: amount_of_def dget_def)
  have above: "filter (\<lambda>d. \<exists>a. amount_of L d = Inr a \<and> 150 < a) ?docs = [[''amount'' \<mapsto> JNum 300]]"
    and below: "filter (\<lambda>d. \<exists>a. amount_of L d = Inr a \<and> a < 150) ?docs = [[''amount'' \<mapsto> JNum 100]]"
    by (simp_all add: amount_of_def dget_def)
  from amts above
    amount_threshold_exclusive [of "no_filters\<lparr>amount_above := Some 150\<rparr>" 150 L ?docs "[]" "[]"]
  have a: "apply_filters L ?docs (no_filters\<lparr>amount_above := Some 150\<rparr>)
          = Inr ([[''amount'' \<mapsto> JNum 300]], [''Amount above: '' @ rupee @ format_money L 150])"
    by (simp add: no_filters_def truthy_date_def truthy_str_def truthy_num_def)
  from amts below
    amount_threshold_exclusive [of "no_filters\<lparr>amount_below := Some 150\<rparr>" 150 L ?docs "[]" "[]"]
  have b: "apply_filters L ?docs (no_filters\<lparr>amount_below := Some 150\<rparr>)
          = Inr ([[''amount'' \<mapsto> JNum 100]], [''Amount below: '' @ rupee @ format_money L 150])"
    by (simp add: no_filters_def truthy_date_def truthy_str_def truthy_num_def)
  from a b show "apply_filters L ?docs (no_filters\<lparr>amount_above := Some 150\<rparr>)
          = Inr ([[''amount'' \<mapsto> JNum 300]], [''Amount above: '' @ rupee @ format_money L 150])
      \<and> apply_filters L ?docs (no_filters\<lparr>amount_below := Some 150\<rparr>)
          = Inr ([[''amount'' \<mapsto> JNum 100]], [''Amount below: '' @ rupee @ format_money L 150])"
    by simp
qed

section \<open>Statistics of an empty result\<close>

lemma apply_filters_empty:
  assumes "\<forall>df m. date_filter F = Some df \<longrightarrow> month df = Some m \<longrightarrow> 1 \<le> m \<and> m \<le> 12"
  shows "\<exists>ds. apply_filters L [] F = Inr ([], ds)"
proof -
  have d: "\<exists>ds. date_stage L F ([], []) = Inr ([], ds)"
  proof (cases "date_filter F")
    case None
    then show ?thesis by (simp add: date_stage_def truthy_date_def)
  next
    case (Some df)
    show ?thesis
    proof (cases "month df")
      case None
      with Some show ?thesis
        by (cases "year df") (simp_all add: date_stage_def truthy_date_def)
    next
      case m: (Some m)
      with assms Some have "1 \<le> m" "m \<le> 12" by auto
      then have "\<exists>mn. py_index month_names (m - 1) = Inr mn"
        by (simp add: py_index_def month_names_def Let_def)
      with Some m show ?thesis
        by (cases "year df") (auto simp: date_stage_def truthy_date_def bind_err_def)
    qed
  qed
  then obtain d1 where d1: "date_stage L F ([], []) = Inr ([], d1)" by blast
  have rest: "\<exists>ds. bind_err (mode_stage L F ([], d1))
       (\<lambda>st. bind_err (type_stage L F st)
           (\<lambda>st. bind_err (amount_stage L F st)
             (\<lambda>st. bind_err (account_stage L F st)
               (\<lambda>st. person_stage L F st)))) = Inr ([], ds)"
    by (cases "the (amount_range F)")
       (simp add: mode_stage_def type_stage_def amount_stage_def account_stage_def
          person_stage_def bind_err_def Let_def)
  with d1 show ?thesis
    by (simp add: apply_filters_def bind_err_def)
qed

text \<open>
  Claim C9. Whenever the filtered result is empty, \<open>calculate_statistics\<close> returns the
  all-zero object and raises nothing. An empty record set is such a case for every Filter
  Set whose month, if any, is a month of the calendar (as every Filter Set built by the
  extractor is): the Filter Applicator returns the empty list for it.
\<close>

theorem empty_result_zero_statistics:
  "(apply_filters L docs F = Inr ([], ds) \<longrightarrow> calculate_statistics L docs F = Inr zero_statistics)
   \<and> ((\<forall>df m. date_filter F = Some df \<longrightarrow> month df = Some m \<longrightarrow> 1 \<le> m \<and> m \<le> 12) \<longrightarrow>
        calculate_statistics L [] F = Inr zero_statistics)
   \<and> zero_statistics = \<lparr>count = 0, total = 0, average = 0, max_amount = 0, min_amount = 0\<rparr>"
proof -
  have a: "calculate_statistics L docs F = Inr zero_statistics"
    if "apply_filters L docs F = Inr ([], ds)"
    using that by (simp add: calculate_statistics_def bind_err_def)
  have b: "calculate_statistics L [] F = Inr zero_statistics"
    if "\<forall>df m. date_filter F = Some df \<longrightarrow> month df = Some m \<longrightarrow> 1 \<le> m \<and> m \<le> 12"
  proof -
    from apply_filters_empty [OF that] obtain ds' where "apply_filters L [] F = Inr ([], ds')"
      by blast
    then show ?thesis by (simp add: calculate_statistics_def bind_err_def)
  qed
  from a b show ?thesis by (simp add: zero_statistics_def)
qed

theorem empty_result_zero_statistics_witness:
  "\<forall>L. apply_filters L [[''amount'' \<mapsto> JNum 100]] (no_filters\<lparr>amount_above := Some 500\<rparr>)
           = Inr ([], [''Amount above: '' @ rupee @ format_money L 500])
     \<and> calculate_statistics L [[''amount'' \<mapsto> JNum 100]] (no_filters\<lparr>amount_above := Some 500\<rparr>)
           = Inr \<lparr>count = 0, total = 0, average = 0, max_amount = 0, min_amount = 0\<rparr>
     \<and> calculate_statistics L [] no_filters
           = Inr \<lparr>count = 0, total = 0, average = 0, max_amount = 0, min_amount = 0\<rparr>"
proof
  fix L
  have h: "apply_filters L [[''amount'' \<mapsto> JNum 100]] (no_filters\<lparr>amount_above := Some 500\<rparr>)
           = Inr ([], [''Amount above: '' @ rupee @ format_money L 500])"
    by (simp add: stage_defs no_filters_def above_match_def amount_of_def dget_def)
  have m: "\<forall>df m. date_filter no_filters = Some df \<longrightarrow> month df = Some m \<longrightarrow> 1 \<le> m \<and> m \<le> 12"
    by (simp add: no_filters_def)
  from h m empty_result_zero_statistics [of L "[[''amount'' \<mapsto> JNum 100]]"
      "no_filters\<lparr>amount_above := Some 500\<rparr>" "[''Amount above: '' @ rupee @ format_money L 500]"]
    empty_result_zero_statistics [of L "[]" no_filters "[]"]
  show "apply_filters L [[''amount'' \<mapsto> JNum 100]] (no_filters\<lparr>amount_above := Some 500\<rparr>)
           = Inr ([], [''Amount above: '' @ rupee @ format_money L 500])
     \<and> calculate_statistics L [[''amount'' \<mapsto> JNum 100]] (no_filters\<lparr>amount_above := Some 500\<rparr>)
           = Inr \<lparr>count = 0, total = 0, average = 0, max_amount = 0, min_amount = 0\<rparr>
     \<and> calculate_statistics L [] no_filters
           = Inr \<lparr>count = 0, total = 0, average = 0, max_amount = 0, min_amount = 0\<rparr>"
    by simp
qed

section \<open>The Mode Classifier\<close>

lemma star_steps_reach:
  assumes "\<forall>k. i \<le> k \<and> k < j \<longrightarrow> Suc k \<in> set (step k)" and "i \<le> j" and "j - i \<le> fuel"
  shows "j \<in> set (star_steps step lazy fuel i)"
  using assms
proof (induction fuel arbitrary: i)
  case 0
  then show ?case by simp
next
  case (Suc fuel)
  show ?case
  proof (cases "i = j")
    case True
    then show ?thesis by (simp add: Let_def)
  next
    case False
    with Suc.prems have lt: "i < j" by simp
    with Suc.prems have step: "Suc i \<in> set (step i)" by simp
    have "j \<in> set (star_steps step lazy fuel (Suc i))"
      using Suc.prems lt by (intro Suc.IH) auto
    with step show ?thesis
      by (auto simp: Let_def)
  qed
qed

lemma rmatch_class_run:
  assumes "i \<le> j" and "j \<le> length s" and "\<forall>k. i \<le> k \<and> k < j \<longrightarrow> p (s ! k)"
  shows "j \<in> set (rmatch (StarLazy (Cls p)) ic s i)" and "j \<in> set (rmatch (Star (Cls p)) ic s i)"
proof -
  have step: "\<forall>k. i \<le> k \<and> k < j \<longrightarrow> Suc k \<in> set (rmatch (Cls p) ic s k)"
    using assms by auto
  from assms have fuel: "j - i \<le> length s - i" by simp
  have lazy: "rmatch (StarLazy (Cls p)) ic s i = star_steps (rmatch (Cls p) ic s) True (length s - i) i"
    and greedy: "rmatch (Star (Cls p)) ic s i = star_steps (rmatch (Cls p) ic s) False (length s - i) i"
    by (simp_all only: rmatch.simps(6,7))
  show "j \<in> set (rmatch (StarLazy (Cls p)) ic s i)"
    unfolding lazy by (rule star_steps_reach [OF step assms(1) fuel])
  show "j \<in> set (rmatch (Star (Cls p)) ic s i)"
    unfolding greedy by (rule star_steps_reach [OF step assms(1) fuel])
qed

lemma rmatch_plus_run:
  assumes "i < j" and "j \<le> length s" and "\<forall>k. i \<le> k \<and> k < j \<longrightarrow> p (s ! k)"
  shows "j \<in> set (rmatch (Plus (Cls p)) ic s i)"
proof -
  from assms have first: "Suc i \<in> set (rmatch (Cls p) ic s i)" by auto
  have "j \<in> set (rmatch (Star (Cls p)) ic s (Suc i))"
    using assms by (intro rmatch_class_run) auto
  with first show ?thesis
    unfolding Plus_def by (simp del: rmatch.simps(2,6)) blast
qed

lemma rmatch_lit_here:
  "length pre + length w \<in> set (rmatch (Lit w) False (pre @ w @ rest) (length pre))"
  by (simp add: lit_at_def)

lemma counting_words_here:
  assumes "w \<in> {''how many'', ''kitne'', ''count'', ''total''}"
  shows "length pre + length w \<in> set (rmatch counting_words False (pre @ w @ rest) (length pre))"
proof -
  have "length pre + length w \<in> set (rmatch (Lit w) False (pre @ w @ rest) (length pre))"
    by (rule rmatch_lit_here)
  with assms show ?thesis
    unfolding counting_words_def by (auto simp del: rmatch.simps(1))
qed

lemma re_search_at:
  assumes "rmatch r ic s i \<noteq> []" and "i \<le> length s"
  shows "re_search r ic s"
proof -
  from assms(2) have "i \<in> set [0..<Suc (length s)]" by (auto simp: less_Suc_eq_le)
  with assms(1) show ?thesis
    unfolding re_search_def list_ex_iff by blast
qed

lemma counting_pattern_matches:
  assumes ql: "ql = pre @ w @ sp @ mid @ ''transaction'' @ post"
    and w: "w \<in> {''how many'', ''kitne'', ''count'', ''total''}"
    and sp: "sp \<noteq> []" "\<forall>c\<in>set sp. is_space c"
    and mid: "CHR 0x0A \<notin> set mid"
    and pre: "pre = [] \<or> \<not> is_word (last pre)"
  shows "is_counting ql"
proof -
  let ?i0 = "length pre"
  let ?i1 = "?i0 + length w"
  let ?i2 = "?i1 + length sp"
  let ?i3 = "?i2 + length mid"
  let ?i4 = "?i3 + length ''transaction''"
  have wb: "word_boundary ql ?i0"
  proof -
    from w have "w \<noteq> []" and "is_word (hd w)"
      by (auto simp: is_word_def is_lower_def ascii_lowercase_def)
    then have "word_at ql ?i0"
      by (cases w) (simp_all add: word_at_def ql)
    moreover have "\<not> (?i0 > 0 \<and> word_at ql (?i0 - 1))"
    proof (cases "pre = []")
      case True
      then show ?thesis by simp
    next
      case False
      with pre have "\<not> is_word (last pre)" by simp
      moreover from False have "ql ! (?i0 - 1) = last pre"
        by (simp add: ql nth_append last_conv_nth)
      ultimately show ?thesis by (simp add: word_at_def)
    qed
    ultimately show ?thesis by (simp add: word_boundary_def)
  qed
  then have m0: "?i0 \<in> set (rmatch WordB False ql ?i0)" by simp
  have m1: "?i1 \<in> set (rmatch counting_words False ql ?i0)"
    using counting_words_here [OF w, of pre "sp @ mid @ ''transaction'' @ post"] by (simp add: ql)
  have m2: "?i2 \<in> set (rmatch (Plus ws) False ql ?i1)"
    unfolding ws_def
  proof (rule rmatch_plus_run)
    show "?i1 < ?i2" using sp by simp
    show "?i2 \<le> length ql" by (simp add: ql)
    show "\<forall>k. ?i1 \<le> k \<and> k < ?i2 \<longrightarrow> is_space (ql ! k)"
    proof (intro allI impI)
      fix k assume k: "?i1 \<le> k \<and> k < ?i2"
      then have "ql ! k = sp ! (k - ?i1)"
        by (auto simp: ql nth_append)
      moreover from k have "k - ?i1 < length sp" by auto
      ultimately show "is_space (ql ! k)" using sp(2) by (metis nth_mem)
    qed
  qed
  have m3: "?i3 \<in> set (rmatch (StarLazy dot) False ql ?i2)"
    unfolding dot_def
  proof (rule rmatch_class_run(1))
    show "?i2 \<le> ?i3" by simp
    show "?i3 \<le> length ql" by (simp add: ql)
    show "\<forall>k. ?i2 \<le> k \<and> k < ?i3 \<longrightarrow> ql ! k \<noteq> CHR 0x0A"
    proof (intro allI impI)
      fix k assume k: "?i2 \<le> k \<and> k < ?i3"
      then have "ql ! k = mid ! (k - ?i2)"
        by (auto simp: ql nth_append)
      moreover from k have "k - ?i2 < length mid" by auto
      ultimately show "ql ! k \<noteq> CHR 0x0A" using mid by (metis nth_mem)
    qed
  qed
  have m4: "?i4 \<in> set (rmatch (Lit ''transaction'') False ql ?i3)"
    using rmatch_lit_here [of "pre @ w @ sp @ mid" "''transaction''" post]
    by (simp add: ql add.assoc)
  have "?i4 \<in> set (rmatch (Seqs [WordB, counting_words, Plus ws, StarLazy dot, Lit ''transaction''])
                        False ql ?i0)"
    using m0 m1 m2 m3 m4
    by (simp del: rmatch.simps(1,2,6,7,8)) blast
  then have "re_search (Seqs [WordB, counting_words, Plus ws, StarLazy dot, Lit ''transaction'']) False ql"
    by (intro re_search_at [where i = ?i0]) (auto simp: ql)
  then show ?thesis
    by (simp add: is_counting_def counting_patterns_def)
qed



text \<open>
  Claim C10, as the first counting pattern has it. When one of the words \<open>how many\<close>,
  \<open>kitne\<close>, \<open>count\<close>, \<open>total\<close> stands in the lower-cased prompt at the start or after a
  character that is not a word character, is followed at once by one or more whitespace
  characters and then, with no line feed in between, by \<open>transaction\<close>, the prompt is
  classified \<open>VECTOR_SEARCH\<close> by priority 1 and cannot select \<open>STATISTICAL\<close>.
\<close>

theorem counting_shadows_statistical:
  assumes "py_lower question = pre @ w @ sp @ mid @ ''transaction'' @ post"
    and "w \<in> {''how many'', ''kitne'', ''count'', ''total''}"
    and "sp \<noteq> []" and "\<forall>c\<in>set sp. is_space c"
    and "CHR 0x0A \<notin> set mid"
    and "pre = [] \<or> \<not> is_word (last pre)"
  shows "detect_query_mode question documents = VECTOR_SEARCH
       \<and> detect_query_rule question = 1
       \<and> detect_query_mode question documents \<noteq> STATISTICAL"
proof -
  from assms have "is_counting (py_lower question)"
    by (intro counting_pattern_matches [of _ pre w sp mid post]) auto
  then show ?thesis
    by (simp add: detect_query_mode_def detect_query_rule_def)
qed

text \<open>
  The prompt contains the statistical keyword \<open>total amount\<close> and is still classified by
  priority 1.
\<close>

theorem counting_shadows_statistical_witness:
  "py_lower ''Total amount of transactions'' = [] @ ''total'' @ '' '' @ ''amount of '' @ ''transaction'' @ ''s''
   \<and> is_statistical (py_lower ''Total amount of transactions'')
   \<and> detect_query_mode ''Total amount of transactions'' [] = VECTOR_SEARCH
   \<and> detect_query_rule ''Total amount of transactions'' = 1"
proof -
  have l: "py_lower ''Total amount of transactions''
             = [] @ ''total'' @ '' '' @ ''amount of '' @ ''transaction'' @ ''s''"
    by code_simp
  have s: "is_statistical (py_lower ''Total amount of transactions'')"
    by code_simp
  have sp: "\<forall>c\<in>set '' ''. is_space c"
    by (simp add: is_space_def)
  from l s counting_shadows_statistical [OF l _ _ sp, of "[]"] show ?thesis
    by simp
qed

text \<open>
  Claim C10 as stated fails: in \<open>sum of total, transactions\<close> the word \<open>total\<close> stands
  between word boundaries and \<open>transaction\<close> follows later, but a comma follows \<open>total\<close>
  where the pattern wants whitespace; no counting pattern matches and the statistical
  keyword \<open>sum of\<close> selects \<open>STATISTICAL\<close>.
\<close>

theorem counting_shadow_counterexample:
  "py_lower ''sum of total, transactions'' = ''sum of '' @ ''total'' @ '', '' @ ''transaction'' @ ''s''
   \<and> word_boundary (py_lower ''sum of total, transactions'') 7
   \<and> word_boundary (py_lower ''sum of total, transactions'') 12
   \<and> detect_query_mode ''sum of total, transactions'' [] = STATISTICAL
   \<and> detect_query_mode ''sum of total, transactions'' [] \<noteq> VECTOR_SEARCH"
proof -
  have "py_lower ''sum of total, transactions'' = ''sum of '' @ ''total'' @ '', '' @ ''transaction'' @ ''s''"
    by code_simp
  moreover have "word_boundary (py_lower ''sum of total, transactions'') 7"
    by code_simp
  moreover have "word_boundary (py_lower ''sum of total, transactions'') 12"
    by code_simp
  moreover have "detect_query_mode ''sum of total, transactions'' [] = STATISTICAL"
    by code_simp
  ultimately show ?thesis by simp
qed

section \<open>The Filter Extractor\<close>

lemmas token_defs = process_number_def float_of_token_def digits_value_def digit_val_def
  py_lower_def lower_char_def is_digit_def ascii_digits_def ascii_uppercase_def ascii_lowercase_def

lemma extract_amount_fields:
  "amount_above (extract_filters_from_query question) = fst (extract_amount (py_lower question))
   \<and> amount_below (extract_filters_from_query question) = fst (snd (extract_amount (py_lower question)))
   \<and> amount_range (extract_filters_from_query question) = snd (snd (extract_amount (py_lower question)))"
  by (simp add: extract_filters_from_query_def Let_def split: prod.splits)

text \<open>
  Claim C5. When the lower-cased question contains \<open>between\<close> and at least two numeric
  tokens survive, the extractor sets only \<open>amount_range\<close>, to the first two amounts in
  ascending order, and leaves \<open>amount_above\<close> and \<open>amount_below\<close> unset, whatever
  above-keywords and below-keywords the question contains.
\<close>

theorem between_range_only:
  assumes "contains (py_lower question) ''between''"
    and "length (amounts_of_question (py_lower question)) \<ge> 2"
  shows "amount_range (extract_filters_from_query question)
           = Some (min (amounts_of_question (py_lower question) ! 0)
                       (amounts_of_question (py_lower question) ! 1),
                   max (amounts_of_question (py_lower question) ! 0)
                       (amounts_of_question (py_lower question) ! 1))
       \<and> amount_above (extract_filters_from_query question) = None
       \<and> amount_below (extract_filters_from_query question) = None"
  using assms
  by (simp add: extract_amount_fields extract_amount_def Let_def min_def max_def)

text \<open>A question with \<open>between\<close>, an above-keyword, a below-keyword and four amounts.\<close>

theorem between_range_only_witness:
  "contains (py_lower ''Between 30,000 and 10k, above 5 or below 7'') ''between''
   \<and> list_ex (contains (py_lower ''Between 30,000 and 10k, above 5 or below 7'')) above_words
   \<and> list_ex (contains (py_lower ''Between 30,000 and 10k, above 5 or below 7'')) below_words
   \<and> amounts_of_question (py_lower ''Between 30,000 and 10k, above 5 or below 7'') = [30000, 10000, 5, 7]
   \<and> amount_range (extract_filters_from_query ''Between 30,000 and 10k, above 5 or below 7'')
        = Some (10000, 30000)
   \<and> amount_above (extract_filters_from_query ''Between 30,000 and 10k, above 5 or below 7'') = None
   \<and> amount_below (extract_filters_from_query ''Between 30,000 and 10k, above 5 or below 7'') = None"
proof -
  let ?q = "''Between 30,000 and 10k, above 5 or below 7''"
  have b: "contains (py_lower ?q) ''between''"
    by code_simp
  have ab: "list_ex (contains (py_lower ?q)) above_words"
    by code_simp
  have be: "list_ex (contains (py_lower ?q)) below_words"
    by code_simp
  have tokens: "re_findall number_pattern (py_lower ?q) = [''30,000'', ''10k'', ''5'', ''7'']"
    by code_simp
  have "process_number ''30,000'' = Some 30000" "process_number ''10k'' = Some 10000"
    "process_number ''5'' = Some 5" "process_number ''7'' = Some 7"
    by (simp_all add: token_defs)
  with tokens have am: "amounts_of_question (py_lower ?q) = [30000, 10000, 5, 7]"
    by (simp add: amounts_of_question_def List.map_filter_simps)
  then have len: "length (amounts_of_question (py_lower ?q)) \<ge> 2"
    by simp
  from between_range_only [OF b len] b ab be am show ?thesis
    by simp
qed

section \<open>The threshold zero\<close>

lemma below_zero_filters:
  "extract_filters_from_query ''transactions below 0'' = no_filters\<lparr>amount_below := Some 0\<rparr>"
proof -
  let ?q = "''transactions below 0''"
  have tokens: "re_findall number_pattern (py_lower ?q) = [''0'']"
    by code_simp
  have "process_number ''0'' = Some 0"
    by (simp add: token_defs)
  with tokens have am: "amounts_of_question (py_lower ?q) = [0]"
    by (simp add: amounts_of_question_def List.map_filter_simps)
  have kw: "\<not> contains (py_lower ?q) ''between''"
    "\<not> list_ex (contains (py_lower ?q)) above_words"
    "list_ex (contains (py_lower ?q)) below_words"
    by code_simp+
  from am kw have a: "extract_amount (py_lower ?q) = (None, Some 0, None)"
    by (simp add: extract_amount_def)
  have d: "extract_date (py_lower ?q) = None" by code_simp
  have m: "extract_mode (py_lower ?q) = None" by code_simp
  have t: "extract_txn_type (py_lower ?q) = None" by code_simp
  have ac: "extract_account (py_lower ?q) = None" by code_simp
  have p: "extract_person ?q = (None, False)" by code_simp
  from a d m t ac p show ?thesis
    by (simp add: extract_filters_from_query_def no_filters_def)
qed

lemma above_zero_filters:
  "extract_filters_from_query ''transactions above 0'' = no_filters\<lparr>amount_above := Some 0\<rparr>"
proof -
  let ?q = "''transactions above 0''"
  have tokens: "re_findall number_pattern (py_lower ?q) = [''0'']"
    by code_simp
  have "process_number ''0'' = Some 0"
    by (simp add: token_defs)
  with tokens have am: "amounts_of_question (py_lower ?q) = [0]"
    by (simp add: amounts_of_question_def List.map_filter_simps)
  have kw: "\<not> contains (py_lower ?q) ''between''"
    "list_ex (contains (py_lower ?q)) above_words"
    by code_simp+
  from am kw have a: "extract_amount (py_lower ?q) = (Some 0, None, None)"
    by (simp add: extract_amount_def)
  have d: "extract_date (py_lower ?q) = None" by code_simp
  have m: "extract_mode (py_lower ?q) = None" by code_simp
  have t: "extract_txn_type (py_lower ?q) = None" by code_simp
  have ac: "extract_account (py_lower ?q) = None" by code_simp
  have p: "extract_person ?q = (None, False)" by code_simp
  from a d m t ac p show ?thesis
    by (simp add: extract_filters_from_query_def no_filters_def)
qed

text \<open>
  Claim C2 at the threshold zero. For the questions \<open>transactions below 0\<close> and
  \<open>transactions above 0\<close> the extractor stores the threshold 0. The conditions
  \<open>filters.get('amount_below')\<close> and \<open>filters.get('amount_above')\<close> of the Filter
  Applicator are false for the number 0, so the amount block is skipped and no description
  is added: with \<open>amount_below = 0\<close> a record of amount 100 is kept, and with
  \<open>amount_above = 0\<close> a record of amount 0 is kept.
\<close>

theorem amount_threshold_zero_ignored:
  "\<forall>L. extract_filters_from_query ''transactions below 0'' = no_filters\<lparr>amount_below := Some 0\<rparr>
      \<and> apply_filters L [[''amount'' \<mapsto> JNum 100]] (extract_filters_from_query ''transactions below 0'')
          = Inr ([[''amount'' \<mapsto> JNum 100]], [])
      \<and> amount_of L [''amount'' \<mapsto> JNum 100] = Inr 100
      \<and> extract_filters_from_query ''transactions above 0'' = no_filters\<lparr>amount_above := Some 0\<rparr>
      \<and> apply_filters L [[''amount'' \<mapsto> JNum 0]] (extract_filters_from_query ''transactions above 0'')
          = Inr ([[''amount'' \<mapsto> JNum 0]], [])
      \<and> amount_of L [''amount'' \<mapsto> JNum 0] = Inr 0"
  by (simp add: below_zero_filters above_zero_filters stage_defs no_filters_def amount_of_def dget_def)

section \<open>Values that make the Filter Applicator raise\<close>

lemma account_question_filters:
  "extract_filters_from_query ''show account 12345'' = no_filters\<lparr>account_id := Some ''12345''\<rparr>"
proof -
  let ?q = "''show account 12345''"
  have tokens: "re_findall number_pattern (py_lower ?q) = [''12345'']"
    by code_simp
  have "process_number ''12345'' = Some 12345"
    by (simp add: token_defs)
  with tokens have am: "amounts_of_question (py_lower ?q) = [12345]"
    by (simp add: amounts_of_question_def List.map_filter_simps)
  have kw: "\<not> contains (py_lower ?q) ''between''"
    "\<not> list_ex (contains (py_lower ?q)) above_words"
    "\<not> list_ex (contains (py_lower ?q)) below_words"
    by code_simp+
  from am kw have a: "extract_amount (py_lower ?q) = (None, None, None)"
    by (simp add: extract_amount_def)
  have d: "extract_date (py_lower ?q) = None" by code_simp
  have m: "extract_mode (py_lower ?q) = None" by code_simp
  have t: "extract_txn_type (py_lower ?q) = None" by code_simp
  have ac: "extract_account (py_lower ?q) = Some ''12345''" by code_simp
  have p: "extract_person ?q = (None, False)" by code_simp
  from a d m t ac p show ?thesis
    by (simp add: extract_filters_from_query_def no_filters_def)
qed

text \<open>
  Claim C3. \<open>apply_filters\<close> is not total. Only the date block has a \<open>try\<close>: a timestamp
  that is not a date string is dropped. The other blocks call a string method or \<open>float\<close>
  on the field unguarded. For the question \<open>show account 12345\<close> the extractor sets the
  account filter, and a record whose \<open>accountId\<close> is the JSON number 12345 raises
  \<open>AttributeError\<close>; an amount string that \<open>float\<close> rejects raises \<open>ValueError\<close>, an
  amount \<open>null\<close> raises \<open>TypeError\<close>, and a \<open>mode\<close> that is not a string raises
  \<open>AttributeError\<close> under a mode filter.
\<close>

theorem apply_filters_raises:
  "\<forall>L. extract_filters_from_query ''show account 12345'' = no_filters\<lparr>account_id := Some ''12345''\<rparr>
      \<and> apply_filters L [[''amount'' \<mapsto> JNum 500, ''accountId'' \<mapsto> JNum 12345]]
            (extract_filters_from_query ''show account 12345'')
          = Inl AttributeError
      \<and> apply_filters (L\<lparr>float_of_str := (float_of_str L)(''abc'' := None)\<rparr>)
            [[''amount'' \<mapsto> JStr ''abc'']] (no_filters\<lparr>amount_above := Some 100\<rparr>)
          = Inl ValueError
      \<and> apply_filters L [[''amount'' \<mapsto> JNull]] (no_filters\<lparr>amount_above := Some 100\<rparr>)
          = Inl TypeError
      \<and> apply_filters L [[''mode'' \<mapsto> JNull]] (no_filters\<lparr>mode_filter := Some ''UPI''\<rparr>)
          = Inl AttributeError
      \<and> apply_filters L [[''createdAt'' \<mapsto> JNum 5]]
            (no_filters\<lparr>date_filter := Some \<lparr>year = Some 2024, month = None\<rparr>\<rparr>)
          = Inr ([], [''Year: '' @ str_int 2024])"
  by (simp add: account_question_filters stage_defs no_filters_def amount_of_def dget_def
        above_match_def mode_match_def account_match_def date_match_def)

section \<open>Pagination tiles the sorted list\<close>









section \<open>Pagination from the cache\<close>

lemma add_page_fields:
  assumes "add_page L request fdocs resp0 = Inr resp"
  shows "resp_query_id resp = resp_query_id resp0 \<and> resp_answer resp = resp_answer resp0
       \<and> resp_mode resp = resp_mode resp0
       \<and> matching_transactions_count resp = matching_transactions_count resp0
       \<and> resp_filters_applied resp = resp_filters_applied resp0
       \<and> resp_statistics resp = resp_statistics resp0"
  using assms
  by (auto simp: add_page_def bind_err_def split: if_splits sum.splits prod.splits)

lemma add_page_transactions:
  assumes "add_page L request fdocs resp0 = Inr resp"
  shows "(show_all request \<and> fdocs \<noteq> [] \<longrightarrow>
            (\<exists>txns meta. paginate L (page request) (page_size request) fdocs = Inr (txns, meta)
               \<and> transactions resp = Some txns \<and> pagination resp = Some meta))
       \<and> (\<not> (show_all request \<and> fdocs \<noteq> []) \<longrightarrow> resp = resp0)"
  using assms
  by (auto simp: add_page_def bind_err_def split: if_splits sum.splits prod.splits)

lemma paginate_slice:
  assumes "paginate L pg ps fdocs = Inr (txns, meta)"
  shows "\<exists>sd. sorted_by_amount_desc L fdocs = Inr sd
           \<and> map_err (format_transaction_for_api L) (py_slice sd ((pg - 1) * ps) ((pg - 1) * ps + ps))
               = Inr txns"
  using assms
  by (auto simp: paginate_def bind_err_def Let_def split: sum.splits if_splits)

lemma show_all_filters: "extract_filters_from_query ''show all'' = no_filters"
  by code_simp

lemma show_all_mode: "detect_query_mode ''show all'' docs = SMART_FULL"
proof -
  have "\<not> is_counting (py_lower ''show all'')" by code_simp
  moreover have "\<not> is_account_listing (py_lower ''show all'')" by code_simp
  moreover have "\<not> is_statistical (py_lower ''show all'')" by code_simp
  moreover have "is_full_scan (py_lower ''show all'')" by code_simp
  ultimately show ?thesis by (simp add: detect_query_mode_def)
qed

text \<open>
  Claim C1, for the pages after the first. When the query identity of a request has an
  unexpired entry in the cache and the page is greater than 1, the endpoint answers from
  the entry alone: no collaborator is called and nothing is stored. Answer, mode, filter
  descriptions, statistics and matching count are those of the entry; when \<open>show_all\<close> is
  set and the entry's filtered records are not empty, the transactions are the formatted
  records of the slice \<open>[(page-1)*page_size, (page-1)*page_size + page_size)\<close> of the
  entry's filtered records sorted by amount descending, and otherwise no transaction list
  is returned. (A record whose amount or formatting raises turns the response into a 500.)
\<close>

theorem cached_page_from_cache:
  assumes "models_set st" and "ingested_transactions st \<noteq> []"
    and "qid = (case query_id request of
                  Some q \<Rightarrow> if q \<noteq> [] then q
                            else generate_query_id R (prompt request)
                                   (extract_filters_from_query (prompt request))
                | None \<Rightarrow> generate_query_id R (prompt request)
                            (extract_filters_from_query (prompt request)))"
    and "cache st qid = Some cd"
    and "t_sweep - timestamp cd \<le> timedelta_minutes CACHE_TTL_MINUTES"
    and "t_check - timestamp cd \<le> timedelta_minutes CACHE_TTL_MINUTES"
    and "page request > 1"
  shows "query_with_prompt L R t_sweep t_check t_store st request
           = (case cached_response L request qid cd of
                Inl e \<Rightarrow> HTTP_500 e
              | Inr resp \<Rightarrow> HTTP_200 resp,
              cleanup_expired_cache t_sweep (cache st))
       \<and> (\<forall>resp. cached_response L request qid cd = Inr resp \<longrightarrow>
             resp_query_id resp = qid
           \<and> resp_answer resp = answer cd
           \<and> resp_mode resp = mode cd
           \<and> resp_filters_applied resp = filters_applied cd
           \<and> resp_statistics resp = statistics cd
           \<and> matching_transactions_count resp = length (filtered_docs cd)
           \<and> (show_all request \<and> filtered_docs cd \<noteq> [] \<longrightarrow>
                (\<exists>sd txns. sorted_by_amount_desc L (filtered_docs cd) = Inr sd
                   \<and> map_err (format_transaction_for_api L)
                        (py_slice sd ((page request - 1) * page_size request)
                                     ((page request - 1) * page_size request + page_size request))
                       = Inr txns
                   \<and> transactions resp = Some txns))
           \<and> (\<not> (show_all request \<and> filtered_docs cd \<noteq> []) \<longrightarrow>
                transactions resp = None \<and> pagination resp = None))"
proof -
  have hit: "get_cached_query t_sweep t_check qid (cache st)
               = (Some cd, cleanup_expired_cache t_sweep (cache st))"
    using assms(4,5,6)
    by (simp add: get_cached_query_def cleanup_expired_cache_def Let_def)
  have run: "query_with_prompt L R t_sweep t_check t_store st request
           = (case cached_response L request qid cd of
                Inl e \<Rightarrow> HTTP_500 e
              | Inr resp \<Rightarrow> HTTP_200 resp,
              cleanup_expired_cache t_sweep (cache st))"
    using assms(1,2,7) hit unfolding query_with_prompt_def Let_def assms(3) [symmetric]
    by (simp split: sum.splits)
  have fields: "resp_query_id resp = qid
           \<and> resp_answer resp = answer cd
           \<and> resp_mode resp = mode cd
           \<and> resp_filters_applied resp = filters_applied cd
           \<and> resp_statistics resp = statistics cd
           \<and> matching_transactions_count resp = length (filtered_docs cd)
           \<and> (show_all request \<and> filtered_docs cd \<noteq> [] \<longrightarrow>
                (\<exists>sd txns. sorted_by_amount_desc L (filtered_docs cd) = Inr sd
                   \<and> map_err (format_transaction_for_api L)
                        (py_slice sd ((page request - 1) * page_size request)
                                     ((page request - 1) * page_size request + page_size request))
                       = Inr txns
                   \<and> transactions resp = Some txns))
           \<and> (\<not> (show_all request \<and> filtered_docs cd \<noteq> []) \<longrightarrow>
                transactions resp = None \<and> pagination resp = None)"
    if c: "cached_response L request qid cd = Inr resp" for resp
  proof -
    let ?r0 = "\<lparr>resp_query_id = qid, resp_answer = answer cd, resp_mode = mode cd,
        matching_transactions_count = length (filtered_docs cd),
        resp_filters_applied = filters_applied cd,
        transactions = None, pagination = None,
        resp_statistics = statistics cd\<rparr>"
    from c have a: "add_page L request (filtered_docs cd) ?r0 = Inr resp"
      by (simp add: cached_response_def)
    from add_page_fields [OF a] have f: "resp_query_id resp = qid
           \<and> resp_answer resp = answer cd
           \<and> resp_mode resp = mode cd
           \<and> resp_filters_applied resp = filters_applied cd
           \<and> resp_statistics resp = statistics cd
           \<and> matching_transactions_count resp = length (filtered_docs cd)"
      by simp
    from add_page_transactions [OF a] paginate_slice [of L "page request" "page_size request" "filtered_docs cd"]
    have t: "(show_all request \<and> filtered_docs cd \<noteq> [] \<longrightarrow>
                (\<exists>sd txns. sorted_by_amount_desc L (filtered_docs cd) = Inr sd
                   \<and> map_err (format_transaction_for_api L)
                        (py_slice sd ((page request - 1) * page_size request)
                                     ((page request - 1) * page_size request + page_size request))
                       = Inr txns
                   \<and> transactions resp = Some txns))"
      by fastforce
    from add_page_transactions [OF a] have n: "\<not> (show_all request \<and> filtered_docs cd \<noteq> []) \<longrightarrow>
                transactions resp = None \<and> pagination resp = None"
      by auto
    from f t n show ?thesis by blast
  qed
  from run fields show ?thesis by blast
qed

text \<open>Page 2 of two cached records, one record per page.\<close>

theorem cached_page_from_cache_witness:
  "\<forall>L R. fst (query_with_prompt (L\<lparr>TransactionInfo := Inr\<rparr>) R 5 5 5
                \<lparr>models_set = True,
                 ingested_transactions = [[''amount'' \<mapsto> JNum 100], [''amount'' \<mapsto> JNum 300]],
                 cache = [''q'' \<mapsto>
                            \<lparr>answer = ''cached answer'', mode = SMART_FULL,
                             filtered_docs = [[''amount'' \<mapsto> JNum 100], [''amount'' \<mapsto> JNum 300]],
                             filters_applied = Some [], statistics = None, timestamp = 0\<rparr>]\<rparr>
                \<lparr>prompt = ''show all'', page = 2, page_size = 1, show_all = True,
                 use_full_data = None, query_id = Some ''q''\<rparr>)
          = HTTP_200 \<lparr>resp_query_id = ''q'', resp_answer = ''cached answer'', resp_mode = SMART_FULL,
                      matching_transactions_count = 2, resp_filters_applied = Some [],
                      transactions = Some [\<lparr>transaction_id = JStr ''N/A'', account_number = JStr ''N/A'',
                                             date = JStr ''N/A'', amount = 100, txn_type = ''N/A'',
                                             txn_mode = JStr ''N/A'', balance_after = 0,
                                             narration = JStr ''N/A'', reference = JStr ''N/A''\<rparr>],
                      pagination = Some \<lparr>pg_page = 2, pg_page_size = 1, total_items = 2,
                                         total_pages = 2, has_next = False, has_prev = True\<rparr>,
                      resp_statistics = None\<rparr>"
proof (intro allI)
  fix L R
  let ?cd = "\<lparr>answer = ''cached answer'', mode = SMART_FULL,
              filtered_docs = [[''amount'' \<mapsto> JNum 100], [''amount'' \<mapsto> JNum 300]],
              filters_applied = Some [], statistics = None, timestamp = 0\<rparr>"
  let ?st = "\<lparr>models_set = True,
              ingested_transactions = [[''amount'' \<mapsto> JNum 100], [''amount'' \<mapsto> JNum 300]],
              cache = [''q'' \<mapsto> ?cd]\<rparr>"
  let ?rq = "\<lparr>prompt = ''show all'', page = 2, page_size = 1, show_all = True,
              use_full_data = None, query_id = Some ''q''\<rparr>"
  have c: "cached_response (L\<lparr>TransactionInfo := Inr\<rparr>) ?rq ''q'' ?cd
         = Inr \<lparr>resp_query_id = ''q'', resp_answer = ''cached answer'', resp_mode = SMART_FULL,
                      matching_transactions_count = 2, resp_filters_applied = Some [],
                      transactions = Some [\<lparr>transaction_id = JStr ''N/A'', account_number = JStr ''N/A'',
                                             date = JStr ''N/A'', amount = 100, txn_type = ''N/A'',
                                             txn_mode = JStr ''N/A'', balance_after = 0,
                                             narration = JStr ''N/A'', reference = JStr ''N/A''\<rparr>],
                      pagination = Some \<lparr>pg_page = 2, pg_page_size = 1, total_items = 2,
                                         total_pages = 2, has_next = False, has_prev = True\<rparr>,
                      resp_statistics = None\<rparr>"
    by (simp add: cached_response_def add_page_def paginate_def sorted_by_amount_desc_def
          bind_err_def amount_of_def dget_def py_slice_def slice_index_def
          format_transaction_for_api_def starts_with_def Let_def)
  from cached_page_from_cache [where st = ?st and qid = "''q''" and request = ?rq and R = R
      and cd = ?cd and t_sweep = 5 and t_check = 5 and L = "L\<lparr>TransactionInfo := Inr\<rparr>"
      and t_store = 5] c
  show "fst (query_with_prompt (L\<lparr>TransactionInfo := Inr\<rparr>) R 5 5 5 ?st ?rq)
          = HTTP_200 \<lparr>resp_query_id = ''q'', resp_answer = ''cached answer'', resp_mode = SMART_FULL,
                      matching_transactions_count = 2, resp_filters_applied = Some [],
                      transactions = Some [\<lparr>transaction_id = JStr ''N/A'', account_number = JStr ''N/A'',
                                             date = JStr ''N/A'', amount = 100, txn_type = ''N/A'',
                                             txn_mode = JStr ''N/A'', balance_after = 0,
                                             narration = JStr ''N/A'', reference = JStr ''N/A''\<rparr>],
                      pagination = Some \<lparr>pg_page = 2, pg_page_size = 1, total_items = 2,
                                         total_pages = 2, has_next = False, has_prev = True\<rparr>,
                      resp_statistics = None\<rparr>"
    by (simp add: timedelta_minutes_def CACHE_TTL_MINUTES_def)
qed

text \<open>
  Claim C1 as stated fails for page 1: the branch that reads the entry is guarded by
  \<open>request.page > 1\<close>. A request for page 1 whose identity has an unexpired entry runs
  the full pipeline again and returns the answer the text generator gives now, not the
  answer of the entry.
\<close>

theorem page_one_recomputes:
  "\<forall>L R. fst (get_cached_query 5 5 (generate_query_id R ''show all'' no_filters)
               [generate_query_id R ''show all'' no_filters \<mapsto>
                  \<lparr>answer = ''cached answer'', mode = SMART_FULL,
                   filtered_docs = [[''amount'' \<mapsto> JNum 100]], filters_applied = Some [],
                   statistics = None, timestamp = 0\<rparr>])
            = Some \<lparr>answer = ''cached answer'', mode = SMART_FULL,
                   filtered_docs = [[''amount'' \<mapsto> JNum 100]], filters_applied = Some [],
                   statistics = None, timestamp = 0\<rparr>
      \<and> fst (query_with_prompt L
                (R\<lparr>generate_conversational_answer := (\<lambda>p ds f fd sa. Inr ''fresh answer'')\<rparr>)
                5 5 5
                \<lparr>models_set = True, ingested_transactions = [[''amount'' \<mapsto> JNum 100]],
                 cache = [generate_query_id R ''show all'' no_filters \<mapsto>
                            \<lparr>answer = ''cached answer'', mode = SMART_FULL,
                             filtered_docs = [[''amount'' \<mapsto> JNum 100]], filters_applied = Some [],
                             statistics = None, timestamp = 0\<rparr>]\<rparr>
                \<lparr>prompt = ''show all'', page = 1, page_size = 20, show_all = False,
                 use_full_data = None, query_id = None\<rparr>)
          = HTTP_200 \<lparr>resp_query_id = generate_query_id R ''show all'' no_filters,
                      resp_answer = ''fresh answer'', resp_mode = SMART_FULL,
                      matching_transactions_count = 1, resp_filters_applied = Some [],
                      transactions = None, pagination = None, resp_statistics = None\<rparr>
      \<and> ''fresh answer'' \<noteq> ''cached answer''"
proof (intro allI)
  fix L R
  have af: "apply_filters L [[''amount'' \<mapsto> JNum 100]] no_filters = Inr ([[''amount'' \<mapsto> JNum 100]], [])"
    by (simp add: stage_defs no_filters_def)
  show "fst (get_cached_query 5 5 (generate_query_id R ''show all'' no_filters)
               [generate_query_id R ''show all'' no_filters \<mapsto>
                  \<lparr>answer = ''cached answer'', mode = SMART_FULL,
                   filtered_docs = [[''amount'' \<mapsto> JNum 100]], filters_applied = Some [],
                   statistics = None, timestamp = 0\<rparr>])
            = Some \<lparr>answer = ''cached answer'', mode = SMART_FULL,
                   filtered_docs = [[''amount'' \<mapsto> JNum 100]], filters_applied = Some [],
                   statistics = None, timestamp = 0\<rparr>
      \<and> fst (query_with_prompt L
                (R\<lparr>generate_conversational_answer := (\<lambda>p ds f fd sa. Inr ''fresh answer'')\<rparr>)
                5 5 5
                \<lparr>models_set = True, ingested_transactions = [[''amount'' \<mapsto> JNum 100]],
                 cache = [generate_query_id R ''show all'' no_filters \<mapsto>
                            \<lparr>answer = ''cached answer'', mode = SMART_FULL,
                             filtered_docs = [[''amount'' \<mapsto> JNum 100]], filters_applied = Some [],
                             statistics = None, timestamp = 0\<rparr>]\<rparr>
                \<lparr>prompt = ''show all'', page = 1, page_size = 20, show_all = False,
                 use_full_data = None, query_id = None\<rparr>)
          = HTTP_200 \<lparr>resp_query_id = generate_query_id R ''show all'' no_filters,
                      resp_answer = ''fresh answer'', resp_mode = SMART_FULL,
                      matching_transactions_count = 1, resp_filters_applied = Some [],
                      transactions = None, pagination = None, resp_statistics = None\<rparr>
      \<and> ''fresh answer'' \<noteq> ''cached answer''"
    by (simp add: query_with_prompt_def fresh_response_def process_smart_full_query_def
          add_page_def show_all_filters show_all_mode af bind_err_def
          get_cached_query_def cleanup_expired_cache_def timedelta_minutes_def
          CACHE_TTL_MINUTES_def Let_def)
qed

end
